theory Spec2Isabelle
  imports Main "HOL-Library.Sublist" "HOL-Library.Multiset"
begin

section \<open>Strings\<close>

text \<open>
  Python strings are modelled as \<^typ>\<open>string\<close>, a \<^typ>\<open>char\<close> being a code point below
  256. On these \<open>str.lower()\<close> maps \<open>A\<close>..\<open>Z\<close> and the accented capitals \<open>0xC0\<close>..\<open>0xDE\<close>
  (less the multiplication sign \<open>0xD7\<close>) to the letter 32 places up and leaves every
  other character alone, and \<open>str.strip()\<close> removes the characters for which
  \<open>str.isspace\<close> holds: tab, line feed, vertical tab, form feed, carriage return, the four
  separators \<open>0x1C\<close>..\<open>0x1F\<close>, the space, the next-line character \<open>0x85\<close> and the
  no-break space \<open>0xA0\<close>.
\<close>

definition lower_char :: "char \<Rightarrow> char" where
  "lower_char c =
     (let n = (of_char c :: nat)
      in if (65 \<le> n \<and> n \<le> 90) \<or> (192 \<le> n \<and> n \<le> 222 \<and> n \<noteq> 215)
         then char_of (n + 32) else c)"

definition lower :: "string \<Rightarrow> string" where
  "lower s = map lower_char s"

definition isspace :: "char \<Rightarrow> bool" where
  "isspace c = ((of_char c :: nat) \<in> {9, 10, 11, 12, 13, 28, 29, 30, 31, 32, 133, 160})"

definition strip :: "string \<Rightarrow> string" where
  "strip s = rev (dropWhile isspace (rev (dropWhile isspace s)))"

text \<open>Python's \<open>needle in hay\<close> on two strings: \<open>needle\<close> occurs as a contiguous run.\<close>

fun str_in :: "string \<Rightarrow> string \<Rightarrow> bool" where
  "str_in needle [] = (needle = [])"
| "str_in needle (c # cs) = (prefix needle (c # cs) \<or> str_in needle cs)"

section \<open>The geography rule (main.py, is_relevant_for_ethiopia)\<close>

text \<open>
  A \<open>GeoScopeResult\<close> is the dictionary returned by \<open>get_geographic_scope\<close>: two lists of
  location strings under the keys \<open>eligible\<close> and \<open>excluded\<close>. The second component of
  the verdict is the reason; the source formats it into a log message, the model keeps the
  case and the list that the message prints.
\<close>

record geo_data =
  eligible :: "string list"
  excluded :: "string list"

datatype reason =
    Explicitly_excludes_Ethiopia
  | Explicitly_includes_Ethiopia
  | Specific_country_list "string list"
  | Relevant_general_scope "string list"
  | No_relevant_scope "string list"

definition general_scopes :: "string set" where
  "general_scopes =
     {''east africa'', ''horn of africa'', ''africa'', ''sub-saharan africa'',
      ''global'', ''international'', ''developing countries''}"

definition is_relevant_for_ethiopia :: "geo_data \<Rightarrow> bool \<times> reason" where
  "is_relevant_for_ethiopia geo =
     (let eligible' = map (\<lambda>g. strip (lower g)) (eligible geo);
          excluded' = map (\<lambda>g. strip (lower g)) (excluded geo)
      in if ''ethiopia'' \<in> set excluded' then (False, Explicitly_excludes_Ethiopia)
         else if ''ethiopia'' \<in> set eligible' then (True, Explicitly_includes_Ethiopia)
         else let specific_countries_found = filter (\<lambda>loc. loc \<notin> general_scopes) eligible'
              in if specific_countries_found \<noteq> []
                 then (False, Specific_country_list specific_countries_found)
                 else let acceptable_general_scopes =
                            filter (\<lambda>scope. scope \<in> general_scopes) eligible'
                      in if acceptable_general_scopes \<noteq> []
                         then (True, Relevant_general_scope acceptable_general_scopes)
                         else (False, No_relevant_scope eligible'))"

text \<open>
  The claims speak of a list that "contains the target country, compared
  case-insensitively after trimming whitespace". That reading is written down on its own:
  trim the entry, then compare it with \<open>Ethiopia\<close> up to case. The source lowercases first
  and trims second.
\<close>

definition names_target :: "string \<Rightarrow> bool" where
  "names_target s = (lower (strip s) = lower ''Ethiopia'')"

definition contains_target :: "string list \<Rightarrow> bool" where
  "contains_target xs = (\<exists>s \<in> set xs. names_target s)"

section \<open>The classifier adapter (ai_analyzer.py)\<close>

text \<open>
  One attempt of \<open>ai_model.generate_content\<close> either answers with a text or raises; the
  source tells a rate-limit error (with or without a suggested wait) from any other error
  only to choose how long to sleep before the next attempt. Sleeping is not modelled.
\<close>

datatype attempt = Reply string | Rate_limited "nat option" | Other_error

text \<open>The loop \<open>for i in range(retries)\<close>: the first answer wins, \<open>None\<close> after the last failure.\<close>

fun attempts_from :: "(nat \<Rightarrow> attempt) \<Rightarrow> nat \<Rightarrow> nat \<Rightarrow> string option" where
  "attempts_from gen i 0 = None"
| "attempts_from gen i (Suc k) =
     (case gen i of
        Reply text \<Rightarrow> Some text
      | Rate_limited wait \<Rightarrow> attempts_from gen (Suc i) k
      | Other_error \<Rightarrow> attempts_from gen (Suc i) k)"

definition call_gemini_with_retry :: "(nat \<Rightarrow> attempt) \<Rightarrow> string option" where
  "call_gemini_with_retry gen = attempts_from gen 0 3"

text \<open>
  The search for a JSON object in the answer (\<open>re.search\<close> with the pattern "opening
  brace, anything, closing brace", greedy, \<open>DOTALL\<close>): the match runs from the first
  opening brace to the last closing brace after it.
\<close>

definition json_match :: "string \<Rightarrow> string option" where
  "json_match text =
     (case dropWhile (\<lambda>c. c \<noteq> CHR ''{'') text of
        [] \<Rightarrow> None
      | brace # rest \<Rightarrow>
          if CHR ''}'' \<in> set rest
          then Some (brace # rev (dropWhile (\<lambda>c. c \<noteq> CHR ''}'') (rev rest)))
          else None)"

text \<open>
  The enrichment dictionary. A key that the classifier left out is \<open>None\<close>; the source
  reads every key with \<open>.get\<close>.
\<close>

record enrichment_data =
  focus_areas :: "string list option"
  summary :: "string option"
  funding_amount :: "string option"
  funder :: "string option"
  deadline :: "string option"

text \<open>The exceptions that occur in the modelled code.\<close>

datatype exn = TypeError | ValueError | OverflowError

text \<open>Calendar dates, ordered as \<open>datetime.date\<close> orders them.\<close>

record date =
  year :: nat
  month :: nat
  day :: nat

definition date_less :: "date \<Rightarrow> date \<Rightarrow> bool" where
  "date_less a b =
     (year a < year b \<or> (year a = year b \<and>
        (month a < month b \<or> (month a = month b \<and> day a < day b))))"

definition is_leap :: "nat \<Rightarrow> bool" where
  "is_leap y = (y mod 4 = 0 \<and> (y mod 400 = 0 \<or> y mod 100 \<noteq> 0))"

definition days_in_month :: "nat \<Rightarrow> nat \<Rightarrow> nat" where
  "days_in_month y m =
     (if m = 2 then (if is_leap y then 29 else 28)
      else if m \<in> {4, 6, 9, 11} then 30 else 31)"

text \<open>The dates that \<open>datetime\<close> can hold.\<close>

definition valid_date :: "date \<Rightarrow> bool" where
  "valid_date d =
     (1 \<le> year d \<and> year d \<le> 9999 \<and> 1 \<le> month d \<and> month d \<le> 12 \<and>
      1 \<le> day d \<and> day d \<le> days_in_month (year d) (month d))"

text \<open>
  \<open>strftime('%Y-%m-%d')\<close>: month and day are written with two digits, the year with as
  many digits as it has (the C library's \<open>%Y\<close> does not pad, so the year 1 gives \<open>1-01-01\<close>).
\<close>

definition digit :: "nat \<Rightarrow> char" where
  "digit n = char_of (48 + n)"

definition isdigit :: "char \<Rightarrow> bool" where
  "isdigit c = (48 \<le> (of_char c :: nat) \<and> (of_char c :: nat) \<le> 57)"

fun decimal :: "nat \<Rightarrow> string" where
  "decimal n = (if n < 10 then [digit n] else decimal (n div 10) @ [digit (n mod 10)])"

declare decimal.simps [simp del]

definition zero_padded :: "nat \<Rightarrow> string" where
  "zero_padded n = (if n < 10 then CHR ''0'' # decimal n else decimal n)"

definition strftime :: "date \<Rightarrow> string" where
  "strftime d = decimal (year d) @ ''-'' @ zero_padded (month d) @ ''-'' @ zero_padded (day d)"

text \<open>
  \<open>strptime(text, '%Y-%m-%d')\<close>: the text must be a year of exactly four digits, a month
  (\<open>1\<close>..\<open>12\<close>, one or two digits) and a day (\<open>1\<close>..\<open>31\<close>, one or two digits, or a blank
  and one digit), joined by hyphens, with nothing left over, and must name a date that
  exists; anything else is a \<open>ValueError\<close>.
\<close>

fun split_on :: "char \<Rightarrow> string \<Rightarrow> string list" where
  "split_on sep [] = [[]]"
| "split_on sep (c # cs) =
     (if c = sep then [] # split_on sep cs
      else case split_on sep cs of [] \<Rightarrow> [[c]] | w # ws \<Rightarrow> (c # w) # ws)"

definition number :: "string \<Rightarrow> nat" where
  "number s = foldl (\<lambda>a c. 10 * a + (of_char c - 48)) 0 s"

definition year_field :: "string \<Rightarrow> bool" where
  "year_field y = (length y = 4 \<and> list_all isdigit y)"

definition month_field :: "string \<Rightarrow> bool" where
  "month_field m =
     (m \<noteq> [] \<and> length m \<le> 2 \<and> list_all isdigit m \<and> 1 \<le> number m \<and> number m \<le> 12)"

definition day_field :: "string \<Rightarrow> bool" where
  "day_field dd =
     ((dd \<noteq> [] \<and> length dd \<le> 2 \<and> list_all isdigit dd \<and> 1 \<le> number dd \<and> number dd \<le> 31) \<or>
      (case dd of [blank, c] \<Rightarrow> blank = CHR '' '' \<and> isdigit c \<and> c \<noteq> CHR ''0'' | _ \<Rightarrow> False))"

definition strptime :: "string \<Rightarrow> exn + date" where
  "strptime text =
     (case split_on CHR ''-'' text of
        [y, m, dd] \<Rightarrow>
          if year_field y \<and> month_field m \<and> day_field dd
          then let d = \<lparr>year = number y, month = number m,
                         day = number (dropWhile (\<lambda>c. c = CHR '' '') dd)\<rparr>
               in if valid_date d then Inr d else Inl ValueError
          else Inl ValueError
      | _ \<Rightarrow> Inl ValueError)"

text \<open>
  What the pipeline takes from outside: whether the two clients were configured at import
  time, the classifier's answer to each attempt, the library functions \<open>json.loads\<close> (seen
  at the two documented schemas: \<open>None\<close> is a \<open>JSONDecodeError\<close>, and for the geography
  task each component is the list under the key, if the key is there) and
  \<open>dateutil.parser.parse\<close> (the date of the \<open>datetime\<close> it returns, or the exception it
  raises: a \<open>ValueError\<close> for a string it cannot read, an \<open>OverflowError\<close> for a number too
  large), and the local date. The values in the classifier's objects have the documented
  types: lists of strings and strings.
\<close>

datatype prompt = Geo_prompt string string | Enrichment_prompt string string

record env =
  ai_model :: bool
  supabase :: bool
  generate_content :: "prompt \<Rightarrow> nat \<Rightarrow> attempt"
  loads_geo :: "string \<Rightarrow> (string list option \<times> string list option) option"
  loads_enrichment :: "string \<Rightarrow> enrichment_data option"
  parse_date :: "string \<Rightarrow> exn + date"
  today :: date

definition no_locations :: geo_data where
  "no_locations = \<lparr>eligible = [], excluded = []\<rparr>"

definition get_geographic_scope :: "env \<Rightarrow> string \<Rightarrow> string \<Rightarrow> geo_data" where
  "get_geographic_scope e title text_content =
     (if \<not> ai_model e then no_locations
      else let text_snippet = take 3000 text_content
           in case call_gemini_with_retry (generate_content e (Geo_prompt title text_snippet)) of
                None \<Rightarrow> no_locations
              | Some response_text \<Rightarrow>
                  if response_text = [] then no_locations
                  else case json_match response_text of
                         None \<Rightarrow> no_locations
                       | Some json_text \<Rightarrow>
                           (case loads_geo e json_text of
                              None \<Rightarrow> no_locations
                            | Some (Some el, Some ex) \<Rightarrow> \<lparr>eligible = el, excluded = ex\<rparr>
                            | Some _ \<Rightarrow> no_locations))"

definition not_configured :: enrichment_data where
  "not_configured =
     \<lparr>focus_areas = Some [], summary = Some ''AI is not configured.'',
      funding_amount = Some ''N/A'', funder = Some ''N/A'', deadline = Some ''N/A''\<rparr>"

definition failed_with :: "string \<Rightarrow> enrichment_data" where
  "failed_with message =
     \<lparr>focus_areas = Some [], summary = Some message,
      funding_amount = Some ''Error'', funder = Some ''Error'', deadline = Some ''Error''\<rparr>"

definition get_enrichment_data :: "env \<Rightarrow> string \<Rightarrow> string \<Rightarrow> enrichment_data" where
  "get_enrichment_data e title text_content =
     (if \<not> ai_model e then not_configured
      else let text_snippet = take 4000 text_content
           in case call_gemini_with_retry
                     (generate_content e (Enrichment_prompt title text_snippet)) of
                None \<Rightarrow> failed_with ''AI call failed after retries.''
              | Some response_text \<Rightarrow>
                  if response_text = [] then failed_with ''AI call failed after retries.''
                  else case json_match response_text of
                         None \<Rightarrow> failed_with ''No JSON object in AI response.''
                       | Some json_text \<Rightarrow>
                           (case loads_enrichment e json_text of
                              None \<Rightarrow> failed_with ''AI returned malformed JSON.''
                            | Some analysis_result \<Rightarrow>
                                if length (case focus_areas analysis_result of
                                             None \<Rightarrow> [] | Some fs \<Rightarrow> fs) > 3
                                then analysis_result
                                       \<lparr>focus_areas :=
                                          map_option (take 3) (focus_areas analysis_result)\<rparr>
                                else analysis_result))"

section \<open>The processor stage (main.py)\<close>

text \<open>
  \<open>validate_and_clean_deadline\<close> returns the text \<open>strftime('%Y-%m-%d')\<close> of the parsed
  date, or \<open>None\<close>. Of the parser's exceptions it catches \<open>ValueError\<close> and \<open>TypeError\<close>;
  any other leaves the function.
\<close>

definition validate_and_clean_deadline :: "env \<Rightarrow> string option \<Rightarrow> exn + string option" where
  "validate_and_clean_deadline e deadline_str =
     (case deadline_str of
        None \<Rightarrow> Inr None
      | Some s \<Rightarrow>
          if s = [] then Inr None
          else if list_ex (\<lambda>keyword. str_in keyword (lower s))
                    [''rolling'', ''ongoing'', ''specified'', ''quarterly'', ''n/a'']
          then Inr None
          else case parse_date e s of
                 Inr parsed_date \<Rightarrow> Inr (Some (strftime parsed_date))
               | Inl ValueError \<Rightarrow> Inr None
               | Inl TypeError \<Rightarrow> Inr None
               | Inl error \<Rightarrow> Inl error)"

datatype status =
    Pending_analysis
  | Processed_relevant
  | Processed_irrelevant
  | Processed_ai_error
  | Processed_expired

record raw_opportunity =
  title :: string
  link :: "string option"
  source :: string
  full_text :: string

record status_update =
  update_link :: "string option"
  update_status :: status

text \<open>
  The record of an accepted item. Its \<open>deadline\<close> is the text that the pipeline sends; in a
  row of the table it is the date that the store holds, whence the type parameter.
\<close>

record 'd final_record =
  record_link :: "string option"
  record_title :: string
  record_source :: string
  geographic_scope :: string
  record_funding_amount :: "string option"
  record_funder :: "string option"
  record_deadline :: "'d option"
  raw_deadline_text :: "string option"
  record_focus_areas :: string
  record_summary :: "string option"

text \<open>Python's \<open>sep.join(xs)\<close>.\<close>

fun join :: "string \<Rightarrow> string list \<Rightarrow> string" where
  "join sep [] = []"
| "join sep [x] = x"
| "join sep (x # y # ys) = x @ sep @ join sep (y # ys)"

text \<open>
  The write requests that the pipeline sends to the store, in the order they are sent.
  What the store does with an upsert or with the stored procedure \<open>bulk_update_raw_status\<close>
  is not part of this repository; the model records the requests.
\<close>

datatype request =
    Upsert_raw "raw_opportunity list"
  | Upsert_processed "string final_record"
  | Rpc_bulk_update_raw_status "status_update list"

definition add_processed_opportunity :: "env \<Rightarrow> string final_record \<Rightarrow> request list" where
  "add_processed_opportunity e opportunity_data =
     (if \<not> supabase e then [] else [Upsert_processed opportunity_data])"

definition bulk_update_raw_opportunity_statuses ::
    "env \<Rightarrow> status_update list \<Rightarrow> request list" where
  "bulk_update_raw_opportunity_statuses e updates =
     (if \<not> supabase e then []
      else if updates = [] then []
      else [Rpc_bulk_update_raw_status updates])"

text \<open>
  \<open>analyze_opportunity\<close> returns the relevance flag and the status update (\<open>None, None\<close>
  for "retry later"); the third component is what it sent to the store meanwhile. It
  raises what \<open>validate_and_clean_deadline\<close> raises and what \<open>strptime\<close> raises on the text
  of the deadline; both come before the record is sent.
\<close>

definition analyze_opportunity ::
    "env \<Rightarrow> 'a raw_opportunity_scheme \<Rightarrow>
       exn + bool option \<times> status_update option \<times> request list" where
  "analyze_opportunity e opportunity =
     (let geo = get_geographic_scope e (title opportunity) (full_text opportunity);
          (is_relevant, reason) = is_relevant_for_ethiopia geo
      in if \<not> is_relevant
         then Inr (Some False,
                   Some \<lparr>update_link = link opportunity, update_status = Processed_irrelevant\<rparr>,
                   [])
         else
           let enrichment = get_enrichment_data e (title opportunity) (full_text opportunity);
               summary' = (case summary enrichment of None \<Rightarrow> [] | Some t \<Rightarrow> t);
               funding = (case funding_amount enrichment of None \<Rightarrow> [] | Some t \<Rightarrow> t)
           in if str_in ''AI call failed'' summary' then Inr (None, None, [])
              else if funding = ''Error'' \<or> str_in ''malformed JSON'' summary'
                        \<or> str_in ''No JSON object'' summary'
              then Inr (Some False,
                        Some \<lparr>update_link = link opportunity,
                              update_status = Processed_ai_error\<rparr>, [])
              else
                let raw_deadline = deadline enrichment
                in case validate_and_clean_deadline e raw_deadline of
                     Inl error \<Rightarrow> Inl error
                   | Inr parsed_deadline_str \<Rightarrow>
                       (case (case parsed_deadline_str of
                                None \<Rightarrow> Inr False
                              | Some text \<Rightarrow>
                                  if text = [] then Inr False
                                  else case strptime text of
                                         Inl error \<Rightarrow> Inl error
                                       | Inr deadline_date \<Rightarrow>
                                           Inr (date_less deadline_date (today e))) of
                          Inl error \<Rightarrow> Inl error
                        | Inr in_the_past \<Rightarrow>
                            if in_the_past
                            then Inr (Some False,
                                      Some \<lparr>update_link = link opportunity,
                                            update_status = Processed_expired\<rparr>, [])
                            else
                              let record =
                                    \<lparr>record_link = link opportunity,
                                     record_title = title opportunity,
                                     record_source = source opportunity,
                                     geographic_scope = join '', '' (eligible geo),
                                     record_funding_amount = funding_amount enrichment,
                                     record_funder = funder enrichment,
                                     record_deadline = parsed_deadline_str,
                                     raw_deadline_text = raw_deadline,
                                     record_focus_areas =
                                       join '', '' (case focus_areas enrichment of
                                                      None \<Rightarrow> [] | Some fs \<Rightarrow> fs),
                                     record_summary = summary enrichment\<rparr>
                              in Inr (Some True,
                                      Some \<lparr>update_link = link opportunity,
                                            update_status = Processed_relevant\<rparr>,
                                      add_processed_opportunity e record)))"

text \<open>The relevance flag of an outcome; an item on which the worker raised has none.\<close>

definition verdict ::
    "exn + bool option \<times> status_update option \<times> request list \<Rightarrow> bool option" where
  "verdict outcome =
     (case outcome of Inl error \<Rightarrow> None | Inr (is_relevant, update, sent) \<Rightarrow> is_relevant)"

text \<open>A row of the table \<open>raw_opportunities\<close>: the scraped record and its status.\<close>

record raw_row = raw_opportunity +
  status :: status

text \<open>
  \<open>get_pending_opportunities\<close>: the rows whose status is \<open>pending_analysis\<close>;
  the empty list when the client is missing or the request fails (\<open>select_ok\<close> is false).
\<close>

definition get_pending_opportunities :: "env \<Rightarrow> bool \<Rightarrow> raw_row list \<Rightarrow> raw_row list" where
  "get_pending_opportunities e select_ok table =
     (if \<not> supabase e then []
      else if \<not> select_ok then []
      else filter (\<lambda>row. status row = Pending_analysis) table)"

text \<open>
  \<open>run_processor_stage\<close>. The workers run in a thread pool and \<open>as_completed\<close> yields them
  in the order in which they finish, which the scheduler chooses: the model takes that
  order as the function \<open>as_completed\<close> (a rearrangement of the submitted items) and runs
  the items in it. A worker that raised is logged by the handler around
  \<open>future.result()\<close> and adds nothing to the batch. The result is the sequence of write
  requests of the run: the upserts of the workers, then whatever the bulk update sends
  once the pool has shut down.
\<close>

definition run_processor_stage ::
    "env \<Rightarrow> bool \<Rightarrow> (raw_row list \<Rightarrow> raw_row list) \<Rightarrow> raw_row list \<Rightarrow> request list" where
  "run_processor_stage e select_ok as_completed table =
     (let opportunities_to_process = get_pending_opportunities e select_ok table
      in if opportunities_to_process = [] then []
         else
           let outcomes = map (analyze_opportunity e) (as_completed opportunities_to_process);
               status_updates_to_commit =
                 concat (map (\<lambda>outcome. case outcome of
                                  Inl error \<Rightarrow> []
                                | Inr (is_relevant, update, sent) \<Rightarrow>
                                    (case update of None \<Rightarrow> [] | Some u \<Rightarrow> [u]))
                           outcomes)
           in concat (map (\<lambda>outcome. case outcome of
                             Inl error \<Rightarrow> []
                           | Inr (is_relevant, update, sent) \<Rightarrow> sent) outcomes) @
              (if status_updates_to_commit \<noteq> []
               then bulk_update_raw_opportunity_statuses e status_updates_to_commit
               else []))"

section \<open>The collector stage (main.py, the scrapers, database_manager.py)\<close>

text \<open>
  What the scrapers see of the web: for each site the links that its listing pages yield
  (after the date cutoff), and for a detail page either nothing (the request failed) or the
  text of the title element, if there is one, and the text of the content element.
  The site of \<open>ofy_scraper\<close> also hands out a nonce, or not.
\<close>

record web =
  gso_links :: "string list"
  gso_page :: "string \<Rightarrow> (string option \<times> string) option"
  ofy_nonce :: "string option"
  ofy_links :: "string \<Rightarrow> string list"
  ofy_page :: "string \<Rightarrow> (string option \<times> string) option"

definition SCRAPER_TEST_LIMIT :: nat where
  "SCRAPER_TEST_LIMIT = 0"

definition gso_scrape_opportunity_details :: "web \<Rightarrow> string \<Rightarrow> raw_opportunity option" where
  "gso_scrape_opportunity_details w url =
     (case gso_page w url of
        None \<Rightarrow> None
      | Some (title_element, content) \<Rightarrow>
          let page_title = (case title_element of None \<Rightarrow> ''Title not found'' | Some t \<Rightarrow> t)
          in if page_title = ''Title not found'' then None
             else Some \<lparr>title = page_title, link = Some url,
                        source = ''Global South Opportunities'', full_text = content\<rparr>)"

definition ofy_scrape_opportunity_details :: "web \<Rightarrow> string \<Rightarrow> raw_opportunity option" where
  "ofy_scrape_opportunity_details w url =
     (case ofy_page w url of
        None \<Rightarrow> None
      | Some (title_element, content) \<Rightarrow>
          let page_title = (case title_element of None \<Rightarrow> ''Title not found'' | Some t \<Rightarrow> t)
          in if page_title = ''Title not found'' then None
             else Some \<lparr>title = page_title, link = Some url,
                        source = ''Opportunities For Youth'', full_text = content\<rparr>)"

text \<open>
  The part that the three scrapers share word for word: drop the links that are already
  known, apply the test limit, scrape each remaining page and keep the pages that gave a
  record.
\<close>

definition scrape_new_links ::
    "(string \<Rightarrow> raw_opportunity option) \<Rightarrow> string option set \<Rightarrow> string list
       \<Rightarrow> raw_opportunity list" where
  "scrape_new_links details existing_links all_recent_links =
     (let links_to_scrape = filter (\<lambda>l. Some l \<notin> existing_links) all_recent_links;
          links_to_scrape' =
            (if SCRAPER_TEST_LIMIT > 0
             then take (min (length links_to_scrape) SCRAPER_TEST_LIMIT) links_to_scrape
             else links_to_scrape)
      in List.map_filter details links_to_scrape')"

definition scrape_gso :: "web \<Rightarrow> string option set \<Rightarrow> exn + raw_opportunity list" where
  "scrape_gso w existing_links =
     Inr (scrape_new_links (gso_scrape_opportunity_details w) existing_links (gso_links w))"

definition scrape_ofy :: "web \<Rightarrow> string option set \<Rightarrow> exn + raw_opportunity list" where
  "scrape_ofy w existing_links =
     (case ofy_nonce w of
        None \<Rightarrow> Inr []
      | Some fresh_nonce \<Rightarrow>
          if fresh_nonce = [] then Inr []
          else Inr (scrape_new_links (ofy_scrape_opportunity_details w) existing_links
                      (ofy_links w fresh_nonce)))"

text \<open>
  \<open>scrape_od\<close> opens with \<open>create_retry_session(use_proxy=True)\<close>, and \<open>create_retry_session\<close>
  in \<open>utils.py\<close> has no parameter of that name: the call raises \<open>TypeError\<close> before the
  scraper reads anything, and \<open>run_collector_stage\<close> catches it.
\<close>

definition scrape_od :: "web \<Rightarrow> string option set \<Rightarrow> exn + raw_opportunity list" where
  "scrape_od w existing_links = Inl TypeError"

definition scraper_functions ::
    "web \<Rightarrow> (string option set \<Rightarrow> exn + raw_opportunity list) list" where
  "scraper_functions w = [scrape_gso w, scrape_ofy w, scrape_od w]"

text \<open>
  \<open>get_all_scraped_links\<close> reads the link column in pages of 1000 rows until a page comes
  back empty. A request that raises ends the loop with the links read so far;
  \<open>failing\<close> is the number of the page whose request raises, if any.
\<close>

function fetch_pages ::
    "nat option \<Rightarrow> string option list \<Rightarrow> nat \<Rightarrow> string option set \<Rightarrow> string option set" where
  "fetch_pages failing links page all_links =
     (if failing = Some page then all_links
      else let data = take 1000 (drop (page * 1000) links)
           in if data = [] then all_links
              else fetch_pages failing links (Suc page) (all_links \<union> set data))"
  by pat_completeness auto
termination
  by (relation "measure (\<lambda>(failing, links, page, all_links). length links - page * 1000)") auto

definition get_all_scraped_links :: "env \<Rightarrow> nat option \<Rightarrow> raw_row list \<Rightarrow> string option set" where
  "get_all_scraped_links e failing table =
     (if \<not> supabase e then {} else fetch_pages failing (map link table) 0 {})"

definition add_raw_opportunities :: "env \<Rightarrow> raw_opportunity list \<Rightarrow> request list" where
  "add_raw_opportunities e opportunities =
     (if \<not> supabase e then []
      else if opportunities = [] then []
      else [Upsert_raw opportunities])"

text \<open>
  The loop of \<open>run_collector_stage\<close> over \<open>all_new_raw_opportunities\<close>, with its two
  accumulators. A record passes when its link is there, is not empty and was not seen.
\<close>

fun unique_loop ::
    "raw_opportunity list \<Rightarrow> raw_opportunity list \<Rightarrow> string set \<Rightarrow> raw_opportunity list" where
  "unique_loop [] unique_opportunities seen_links = unique_opportunities"
| "unique_loop (opp # rest) unique_opportunities seen_links =
     (case link opp of
        None \<Rightarrow> unique_loop rest unique_opportunities seen_links
      | Some l \<Rightarrow>
          if l \<noteq> [] \<and> l \<notin> seen_links
          then unique_loop rest (unique_opportunities @ [opp]) (insert l seen_links)
          else unique_loop rest unique_opportunities seen_links)"

text \<open>
  The scrapers run in a thread pool; \<open>as_completed\<close> is the order in which they finish.
  A scraper that raised contributes nothing.
\<close>

definition all_new_raw_opportunities ::
    "(exn + raw_opportunity list) list \<Rightarrow> raw_opportunity list" where
  "all_new_raw_opportunities results =
     concat (map (\<lambda>result. case result of Inl error \<Rightarrow> [] | Inr found \<Rightarrow> found) results)"

definition run_collector_stage ::
    "env \<Rightarrow> web \<Rightarrow> nat option
       \<Rightarrow> ((exn + raw_opportunity list) list \<Rightarrow> (exn + raw_opportunity list) list)
       \<Rightarrow> raw_row list \<Rightarrow> request list" where
  "run_collector_stage e w failing as_completed table =
     (let existing_links = get_all_scraped_links e failing table;
          futures = map (\<lambda>f. f existing_links) (scraper_functions w);
          unique_opportunities =
            unique_loop (all_new_raw_opportunities (as_completed futures)) [] {}
      in if unique_opportunities \<noteq> [] then add_raw_opportunities e unique_opportunities
         else [])"

section \<open>The maintenance stage (database_manager.py)\<close>

text \<open>
  A row of \<open>processed_opportunities\<close> is the record that was upserted, its deadline held
  as a date, plus the time of processing. Time stamps are integers. A call reads the clock once: the UTC date, and the
  time \<open>n\<close> months before now (\<open>relativedelta\<close>).
\<close>

record processed_row = "date final_record" +
  processed_at :: int

record clock =
  utc_today :: date
  utc_months_ago :: "nat \<Rightarrow> int"

definition STALE_OPPORTUNITY_MONTHS :: nat where
  "STALE_OPPORTUNITY_MONTHS = 9"

text \<open>
  The filter of the first delete request: \<open>deadline\<close> is not null and lies before today.
\<close>

definition expired_filter :: "date \<Rightarrow> processed_row \<Rightarrow> bool" where
  "expired_filter today_utc row =
     (case record_deadline row of None \<Rightarrow> False | Some d \<Rightarrow> date_less d today_utc)"

text \<open>
  The filter of the second: \<open>deadline\<close> is null, \<open>raw_deadline_text\<close> is one of the stale
  keywords, \<open>processed_at\<close> lies before the cutoff.
\<close>

definition stale_keywords :: "string list" where
  "stale_keywords = [''Not Specified'', ''N/A'']"

definition stale_filter :: "int \<Rightarrow> processed_row \<Rightarrow> bool" where
  "stale_filter cutoff row =
     (record_deadline row = None \<and>
      (case raw_deadline_text row of None \<Rightarrow> False | Some t \<Rightarrow> t \<in> set stale_keywords) \<and>
      processed_at row < cutoff)"

text \<open>
  Both functions return the table after the call and the count of deleted rows that the
  store reports. Nothing is deleted when the client is missing or when the request raises
  (\<open>executed\<close> is false); the source logs that and goes on.
\<close>

definition delete_expired_opportunities ::
    "env \<Rightarrow> bool \<Rightarrow> clock \<Rightarrow> processed_row list \<Rightarrow> processed_row list \<times> nat" where
  "delete_expired_opportunities e executed c table =
     (if \<not> supabase e then (table, 0)
      else if \<not> executed then (table, 0)
      else (filter (\<lambda>row. \<not> expired_filter (utc_today c) row) table,
            length (filter (expired_filter (utc_today c)) table)))"

definition delete_stale_opportunities ::
    "env \<Rightarrow> bool \<Rightarrow> clock \<Rightarrow> nat \<Rightarrow> processed_row list \<Rightarrow> processed_row list \<times> nat" where
  "delete_stale_opportunities e executed c threshold_months table =
     (let cutoff = utc_months_ago c threshold_months
      in if \<not> supabase e then (table, 0)
         else if \<not> executed then (table, 0)
         else (filter (\<lambda>row. \<not> stale_filter cutoff row) table,
               length (filter (stale_filter cutoff) table)))"

text \<open>\<open>run_maintenance_stage\<close>: the two passes, one after the other.\<close>

definition run_maintenance_stage ::
    "env \<Rightarrow> bool \<Rightarrow> bool \<Rightarrow> clock \<Rightarrow> processed_row list \<Rightarrow> processed_row list \<times> nat" where
  "run_maintenance_stage e executed1 executed2 c table =
     (let (table1, count1) = delete_expired_opportunities e executed1 c table;
          (table2, count2) =
            delete_stale_opportunities e executed2 c STALE_OPPORTUNITY_MONTHS table1
      in (table2, count1 + count2))"

section \<open>A scripted run\<close>

text \<open>
  A small environment on which the definitions can be run: the classifier answers with the
  text it was given (behind a few words of prose for the geography task), fails every
  attempt of the geography task for the title \<open>Down\<close> and every attempt of the enrichment
  task for the title \<open>Flaky\<close>; the JSON reader knows five objects, the date parser
  three strings.
\<close>

definition scripted_env :: env where
  "scripted_env =
     \<lparr>ai_model = True, supabase = True,
      generate_content = (\<lambda>p i. case p of
          Geo_prompt t x \<Rightarrow> if t = ''Down'' then Other_error else Reply (''Here you go: '' @ x)
        | Enrichment_prompt t x \<Rightarrow> if t = ''Flaky'' then Rate_limited None else Reply x),
      loads_geo = (\<lambda>s.
          if s = ''{N}'' then Some (Some [''Nigeria''], Some [])
          else if s = ''{E}'' \<or> s = ''{X}'' \<or> s = ''{Y}'' \<or> s = ''{O}''
          then Some (Some [''East Africa''], Some [''Somalia''])
          else None),
      loads_enrichment = (\<lambda>s.
          if s = ''{E}'' then Some
            \<lparr>focus_areas = Some [''Health'', ''Education'', ''Research'', ''Arts & Culture''],
             summary = Some ''A grant for clinics.'', funding_amount = Some ''$10,000'',
             funder = Some ''USAID'', deadline = Some ''Rolling''\<rparr>
          else if s = ''{X}'' then Some
            \<lparr>focus_areas = Some [''Health''],
             summary = Some ''A closed call.'', funding_amount = Some ''Not Specified'',
             funder = Some ''WHO'', deadline = Some ''2024-01-01''\<rparr>
          else if s = ''{Y}'' then Some
            \<lparr>focus_areas = Some [''Research''],
             summary = Some ''An old call.'', funding_amount = Some ''Not Specified'',
             funder = Some ''Not Specified'', deadline = Some ''0001-01-01''\<rparr>
          else if s = ''{O}'' then Some
            \<lparr>focus_areas = Some [''Research''],
             summary = Some ''A call with a number.'', funding_amount = Some ''Not Specified'',
             funder = Some ''Not Specified'', deadline = Some ''3000000000''\<rparr>
          else None),
      parse_date = (\<lambda>s.
          if s = ''2024-01-01'' then Inr \<lparr>year = 2024, month = 1, day = 1\<rparr>
          else if s = ''0001-01-01'' then Inr \<lparr>year = 1, month = 1, day = 1\<rparr>
          else if s = ''3000000000'' then Inl OverflowError
          else Inl ValueError),
      today = \<lparr>year = 2025, month = 1, day = 1\<rparr>\<rparr>"

definition item :: "string \<Rightarrow> string \<Rightarrow> raw_row" where
  "item t x =
     \<lparr>title = t, link = Some (''https://example.org/'' @ t), source = ''Opportunity Desk'',
      full_text = x, status = Pending_analysis\<rparr>"

text \<open>
  The same for the collector (two sites that share a link, one link already known, one page
  without a title) and for the maintenance stage (five rows: a deadline that passed
  yesterday, a deadline today, two rows without a stated deadline on either side of the
  cutoff, a rolling call).
\<close>

definition scripted_web :: web where
  "scripted_web =
     \<lparr>gso_links = [''https://a.org/1'', ''https://a.org/2'', ''https://known.org/k''],
      gso_page = (\<lambda>url. if url = ''https://a.org/1'' then Some (Some ''Grant one'', ''Text one'')
                          else Some (Some ''Grant'', [])),
      ofy_nonce = Some ''f00'',
      ofy_links = (\<lambda>nonce. [''https://a.org/2'', ''https://known.org/k'', ''https://b.org/3'']),
      ofy_page = (\<lambda>url. if url = ''https://b.org/3'' then Some (None, ''Untitled'')
                          else Some (Some ''Cross-posted grant'', ''Text''))\<rparr>"

definition known_table :: "raw_row list" where
  "known_table =
     [\<lparr>title = ''Known grant'', link = Some ''https://known.org/k'',
       source = ''Opportunity Desk'', full_text = ''Text'', status = Processed_irrelevant\<rparr>]"

definition candidate :: "string option \<Rightarrow> raw_opportunity" where
  "candidate l =
     \<lparr>title = ''Grant'', link = l, source = ''Opportunity Desk'', full_text = ''Text''\<rparr>"

definition sample_row :: "date option \<Rightarrow> string option \<Rightarrow> int \<Rightarrow> processed_row" where
  "sample_row d t stamp =
     \<lparr>record_link = Some ''https://a.org/1'', record_title = ''Grant one'',
      record_source = ''Opportunity Desk'', geographic_scope = ''Global'',
      record_funding_amount = None, record_funder = None, record_deadline = d,
      raw_deadline_text = t, record_focus_areas = ''Health'', record_summary = None,
      processed_at = stamp\<rparr>"

definition sample_clock :: clock where
  "sample_clock =
     \<lparr>utc_today = \<lparr>year = 2025, month = 6, day = 15\<rparr>,
      utc_months_ago = (\<lambda>n. 1000 - 30 * int n)\<rparr>"

definition sample_table :: "processed_row list" where
  "sample_table =
     [sample_row (Some \<lparr>year = 2025, month = 6, day = 14\<rparr>) (Some ''2025-06-14'') 900,
      sample_row (Some \<lparr>year = 2025, month = 6, day = 15\<rparr>) (Some ''2025-06-15'') 100,
      sample_row None (Some ''Not Specified'') 729,
      sample_row None (Some ''Not Specified'') 730,
      sample_row None (Some ''Rolling'') 10]"

definition pending_table :: "raw_row list" where
  "pending_table =
     [item ''a'' ''{N}'', item ''b'' ''{E}'', item ''c'' ''{X}'',
      (item ''d'' ''{E}'') \<lparr>status := Processed_relevant\<rparr>]"

section \<open>Facts about the string functions\<close>

lemma lower_char_isspace: "isspace (lower_char c) = isspace c"
proof (cases "(65 \<le> (of_char c :: nat) \<and> (of_char c :: nat) \<le> 90) \<or>
              (192 \<le> (of_char c :: nat) \<and> (of_char c :: nat) \<le> 222 \<and> (of_char c :: nat) \<noteq> 215)")
  case True
  then have "(of_char c + 32 :: nat) mod 256 = of_char c + 32"
    by auto
  then have "(of_char (lower_char c) :: nat) = of_char c + 32"
    using True by (simp add: lower_char_def Let_def)
  with True show ?thesis
    by (auto simp: isspace_def)
next
  case False
  then have "lower_char c = c"
    by (auto simp: lower_char_def Let_def)
  then show ?thesis
    by simp
qed

lemma lower_strip: "lower (strip s) = strip (lower s)"
proof -
  have comp: "isspace \<circ> lower_char = isspace"
    by (rule ext) (simp add: lower_char_isspace)
  show ?thesis
    by (simp add: lower_def strip_def rev_map dropWhile_map comp)
qed

lemma lower_Ethiopia: "lower ''Ethiopia'' = ''ethiopia''"
  by code_simp

lemma names_target_iff: "names_target s \<longleftrightarrow> strip (lower s) = ''ethiopia''"
  by (simp add: names_target_def lower_strip lower_Ethiopia)

lemma contains_target_iff:
  "contains_target xs \<longleftrightarrow> ''ethiopia'' \<in> set (map (\<lambda>g. strip (lower g)) xs)"
  by (force simp: contains_target_def names_target_iff)

section \<open>Claims about the geography rule\<close>

text \<open>
  C1. If the excluded list contains Ethiopia (up to case and surrounding whitespace) the
  verdict is "not relevant" whatever the eligible list holds; otherwise, if the eligible
  list contains Ethiopia, the verdict is "relevant", whatever else the excluded list names.
\<close>

theorem exclusion_then_inclusion:
  "(contains_target (excluded geo) \<longrightarrow> \<not> fst (is_relevant_for_ethiopia geo)) \<and>
   (\<not> contains_target (excluded geo) \<and> contains_target (eligible geo)
      \<longrightarrow> fst (is_relevant_for_ethiopia geo))"
  by (simp add: contains_target_iff is_relevant_for_ethiopia_def Let_def)

theorem exclusion_then_inclusion_witness:
  "contains_target [''Somalia'', ''  ETHIOPIA ''] \<and>
   \<not> fst (is_relevant_for_ethiopia
      \<lparr>eligible = [''Ethiopia'', ''Global''], excluded = [''Somalia'', ''  ETHIOPIA '']\<rparr>) \<and>
   \<not> contains_target [''Somalia'', ''Eritrea''] \<and>
   contains_target [''Kenya'', ''ethiopia''] \<and>
   fst (is_relevant_for_ethiopia
      \<lparr>eligible = [''Kenya'', ''ethiopia''], excluded = [''Somalia'', ''Eritrea'']\<rparr>) \<and>
   contains_target [''Ethiopia'' @ [CHR 0xA0]] \<and>
   \<not> fst (is_relevant_for_ethiopia
      \<lparr>eligible = [''Ethiopia''], excluded = [''Ethiopia'' @ [CHR 0xA0]]\<rparr>)"
proof -
  have a: "contains_target [''Somalia'', ''  ETHIOPIA '']"
    by code_simp
  have b: "\<not> contains_target [''Somalia'', ''Eritrea'']"
    by code_simp
  have c: "contains_target [''Kenya'', ''ethiopia'']"
    by code_simp
  have d: "contains_target [''Ethiopia'' @ [CHR 0xA0]]"
    by code_simp
  show ?thesis
    using a b c d
      exclusion_then_inclusion
        [of "\<lparr>eligible = [''Ethiopia''], excluded = [''Ethiopia'' @ [CHR 0xA0]]\<rparr>"]
      exclusion_then_inclusion
        [of "\<lparr>eligible = [''Ethiopia'', ''Global''], excluded = [''Somalia'', ''  ETHIOPIA '']\<rparr>"]
      exclusion_then_inclusion
        [of "\<lparr>eligible = [''Kenya'', ''ethiopia''], excluded = [''Somalia'', ''Eritrea'']\<rparr>"]
    by simp
qed

text \<open>
  C2. When Ethiopia is in neither list: one eligible entry outside the allow-list of broad
  scopes (after lowercasing and trimming) makes the verdict "not relevant", also when
  another entry is a broad scope; a non-empty eligible list whose entries are all broad
  scopes makes it "relevant"; an empty eligible list makes it "not relevant".
\<close>

theorem broad_scope_rule:
  assumes "\<not> contains_target (excluded geo)" and "\<not> contains_target (eligible geo)"
  shows "((\<exists>s \<in> set (eligible geo). strip (lower s) \<notin> general_scopes)
            \<longrightarrow> \<not> fst (is_relevant_for_ethiopia geo)) \<and>
         (eligible geo \<noteq> [] \<and> (\<forall>s \<in> set (eligible geo). strip (lower s) \<in> general_scopes)
            \<longrightarrow> fst (is_relevant_for_ethiopia geo)) \<and>
         (eligible geo = [] \<longrightarrow> \<not> fst (is_relevant_for_ethiopia geo))"
proof -
  let ?el = "map (\<lambda>g. strip (lower g)) (eligible geo)"
  have no_ex: "''ethiopia'' \<notin> set (map (\<lambda>g. strip (lower g)) (excluded geo))"
    using assms(1) by (simp only: contains_target_iff not_False_eq_True)
  have no_el: "''ethiopia'' \<notin> set ?el"
    using assms(2) by (simp only: contains_target_iff not_False_eq_True)
  have verdict: "fst (is_relevant_for_ethiopia geo) \<longleftrightarrow>
      filter (\<lambda>loc. loc \<notin> general_scopes) ?el = [] \<and>
      filter (\<lambda>scope. scope \<in> general_scopes) ?el \<noteq> []"
    using no_ex no_el by (simp add: is_relevant_for_ethiopia_def Let_def)
  have specific: "filter (\<lambda>loc. loc \<notin> general_scopes) ?el = [] \<longleftrightarrow>
      (\<forall>s \<in> set (eligible geo). strip (lower s) \<in> general_scopes)"
    by (simp add: filter_empty_conv)
  have broad: "filter (\<lambda>scope. scope \<in> general_scopes) ?el \<noteq> [] \<longleftrightarrow>
      (\<exists>s \<in> set (eligible geo). strip (lower s) \<in> general_scopes)"
    by (simp add: filter_empty_conv)
  show ?thesis
  proof (intro conjI impI)
    assume "\<exists>s \<in> set (eligible geo). strip (lower s) \<notin> general_scopes"
    then show "\<not> fst (is_relevant_for_ethiopia geo)"
      using verdict specific by blast
  next
    assume h: "eligible geo \<noteq> [] \<and>
      (\<forall>s \<in> set (eligible geo). strip (lower s) \<in> general_scopes)"
    then obtain s where "s \<in> set (eligible geo)"
      by (cases "eligible geo") auto
    with h show "fst (is_relevant_for_ethiopia geo)"
      using verdict specific broad by blast
  next
    assume "eligible geo = []"
    then show "\<not> fst (is_relevant_for_ethiopia geo)"
      using verdict by simp
  qed
qed

theorem broad_scope_rule_witness:
  "\<not> contains_target [''Somalia''] \<and> \<not> contains_target [''Global'', ''Kenya''] \<and>
   (\<exists>s \<in> set [''Global'', ''Kenya'']. strip (lower s) \<notin> general_scopes) \<and>
   \<not> fst (is_relevant_for_ethiopia
      \<lparr>eligible = [''Global'', ''Kenya''], excluded = [''Somalia'']\<rparr>) \<and>
   \<not> contains_target ['' East Africa '', ''GLOBAL''] \<and>
   strip (lower '' East Africa '') \<in> general_scopes \<and>
   strip (lower ''GLOBAL'') \<in> general_scopes \<and>
   fst (is_relevant_for_ethiopia
      \<lparr>eligible = ['' East Africa '', ''GLOBAL''], excluded = [''Somalia'']\<rparr>) \<and>
   \<not> fst (is_relevant_for_ethiopia \<lparr>eligible = [], excluded = [''Somalia'']\<rparr>) \<and>
   strip (lower (''Global'' @ [CHR 0x85])) \<in> general_scopes \<and>
   fst (is_relevant_for_ethiopia
      \<lparr>eligible = [''Global'' @ [CHR 0x85]], excluded = [''Somalia'']\<rparr>)"
proof -
  have ex: "\<not> contains_target [''Somalia'']"
    by code_simp
  have el1: "\<not> contains_target [''Global'', ''Kenya'']"
    by code_simp
  have el2: "\<not> contains_target ['' East Africa '', ''GLOBAL'']"
    by code_simp
  have el3: "\<not> contains_target []"
    by code_simp
  have kenya: "\<exists>s \<in> set [''Global'', ''Kenya'']. strip (lower s) \<notin> general_scopes"
    by code_simp
  have broad: "\<forall>s \<in> set ['' East Africa '', ''GLOBAL'']. strip (lower s) \<in> general_scopes"
    by code_simp
  have r1: "\<not> fst (is_relevant_for_ethiopia
      \<lparr>eligible = [''Global'', ''Kenya''], excluded = [''Somalia'']\<rparr>)"
    using broad_scope_rule
      [of "\<lparr>eligible = [''Global'', ''Kenya''], excluded = [''Somalia'']\<rparr>"] ex el1 kenya
    by simp
  have r2: "fst (is_relevant_for_ethiopia
      \<lparr>eligible = ['' East Africa '', ''GLOBAL''], excluded = [''Somalia'']\<rparr>)"
    using broad_scope_rule
      [of "\<lparr>eligible = ['' East Africa '', ''GLOBAL''], excluded = [''Somalia'']\<rparr>"]
      ex el2 broad
    by simp
  have r3: "\<not> fst (is_relevant_for_ethiopia \<lparr>eligible = [], excluded = [''Somalia'']\<rparr>)"
    using broad_scope_rule [of "\<lparr>eligible = [], excluded = [''Somalia'']\<rparr>"] ex el3
    by simp
  have el4: "\<not> contains_target [''Global'' @ [CHR 0x85]]"
    by code_simp
  have nel: "strip (lower (''Global'' @ [CHR 0x85])) \<in> general_scopes"
    by code_simp
  have r4: "fst (is_relevant_for_ethiopia
      \<lparr>eligible = [''Global'' @ [CHR 0x85]], excluded = [''Somalia'']\<rparr>)"
    using broad_scope_rule
      [of "\<lparr>eligible = [''Global'' @ [CHR 0x85]], excluded = [''Somalia'']\<rparr>"]
      ex el4 nel
    by simp
  from broad have "strip (lower '' East Africa '') \<in> general_scopes"
    and "strip (lower ''GLOBAL'') \<in> general_scopes"
    by simp_all
  then show ?thesis
    using ex el1 el2 kenya r1 r2 r3 nel r4 by blast
qed


section \<open>Facts about the text of a date\<close>

lemma of_char_digit: "n < 10 \<Longrightarrow> (of_char (digit n) :: nat) = 48 + n"
  by (simp add: digit_def)

lemma isdigit_digit: "n < 10 \<Longrightarrow> isdigit (digit n)"
  by (simp add: isdigit_def of_char_digit)

lemma decimal_digits: "list_all isdigit (decimal n)"
  by (induction n rule: decimal.induct) (subst decimal.simps, simp add: isdigit_digit)

lemma number_snoc: "number (s @ [c]) = 10 * number s + (of_char c - 48)"
  by (simp add: number_def)

lemma number_decimal: "number (decimal n) = n"
proof (induction n rule: decimal.induct)
  case (1 n)
  show ?case
  proof (cases "n < 10")
    case True
    then show ?thesis
      by (subst decimal.simps) (simp add: number_def of_char_digit)
  next
    case False
    then have "number (decimal n) =
        10 * number (decimal (n div 10)) + (of_char (digit (n mod 10)) - 48)"
      by (subst decimal.simps) (simp add: number_snoc)
    with False 1 show ?thesis
      by (simp add: of_char_digit)
  qed
qed

lemma length_decimal:
  "length (decimal n) =
     (if n < 10 then 1 else if n < 100 then 2 else if n < 1000 then 3
      else if n < 10000 then 4 else length (decimal n))"
proof -
  have one: "m < 10 \<Longrightarrow> length (decimal m) = 1" for m
    by (subst decimal.simps) simp
  have two: "\<not> m < 10 \<Longrightarrow> m < 100 \<Longrightarrow> length (decimal m) = 2" for m
    by (subst decimal.simps) (simp add: one)
  have three: "\<not> m < 100 \<Longrightarrow> m < 1000 \<Longrightarrow> length (decimal m) = 3" for m
    by (subst decimal.simps) (simp add: two)
  have four: "\<not> m < 1000 \<Longrightarrow> m < 10000 \<Longrightarrow> length (decimal m) = 4" for m
    by (subst decimal.simps) (simp add: three)
  show ?thesis
    using one two three four by auto
qed

lemma split_on_no_sep: "sep \<notin> set s \<Longrightarrow> split_on sep s = [s]"
  by (induction s) auto

lemma split_on_append:
  "sep \<notin> set a \<Longrightarrow> split_on sep (a @ sep # rest) = a # split_on sep rest"
  by (induction a) (auto simp: split_on_no_sep split: list.splits)

lemma isdigit_not_dash: "isdigit c \<Longrightarrow> c \<noteq> CHR ''-''"
  by (auto simp: isdigit_def)

lemma isdigit_not_blank: "isdigit c \<Longrightarrow> c \<noteq> CHR '' ''"
  by (auto simp: isdigit_def)

lemma decimal_no_dash: "CHR ''-'' \<notin> set (decimal n)"
  using decimal_digits [of n] isdigit_not_dash by (auto simp: list_all_iff)

lemma zero_padded_digits: "list_all isdigit (zero_padded n)"
  using decimal_digits [of n] by (simp add: zero_padded_def isdigit_def)

lemma zero_padded_no_dash: "CHR ''-'' \<notin> set (zero_padded n)"
  using zero_padded_digits [of n] isdigit_not_dash by (auto simp: list_all_iff)

lemma number_zero_padded: "number (zero_padded n) = n"
proof -
  have "number (CHR ''0'' # s) = number s" for s
    by (simp add: number_def)
  then show ?thesis
    by (simp add: zero_padded_def number_decimal)
qed

lemma length_zero_padded: "n < 100 \<Longrightarrow> length (zero_padded n) = 2"
  using length_decimal [of n] by (simp add: zero_padded_def split: if_splits)

lemma split_on_strftime:
  "split_on CHR ''-'' (strftime d) =
     [decimal (year d), zero_padded (month d), zero_padded (day d)]"
  by (simp add: strftime_def split_on_append split_on_no_sep decimal_no_dash
        zero_padded_no_dash)

lemma dropWhile_blank_digits:
  "list_all isdigit s \<Longrightarrow> dropWhile (\<lambda>c. c = CHR '' '') s = s"
  by (cases s) (auto simp: isdigit_not_blank)

lemma days_in_month_le: "days_in_month y m \<le> 31"
  by (simp add: days_in_month_def)

lemma strftime_not_empty: "strftime d \<noteq> []"
proof -
  have "decimal n \<noteq> []" for n
    by (subst decimal.simps) simp
  then show ?thesis
    by (simp add: strftime_def)
qed

text \<open>
  A date with a year of four digits is read back from its text; the text of a date with
  a shorter year is refused.
\<close>

lemma strptime_strftime:
  assumes "valid_date d" and "1000 \<le> year d"
  shows "strptime (strftime d) = Inr d"
proof -
  have y: "year_field (decimal (year d))"
    using assms length_decimal [of "year d"]
    by (simp add: year_field_def decimal_digits valid_date_def)
  have lm: "length (zero_padded (month d)) = 2"
    using assms(1) by (intro length_zero_padded) (simp add: valid_date_def)
  then have "zero_padded (month d) \<noteq> []"
    by auto
  then have m: "month_field (zero_padded (month d))"
    using assms(1) lm
    by (simp add: month_field_def zero_padded_digits number_zero_padded valid_date_def)
  have "day d \<le> 31"
    using assms(1) days_in_month_le [of "year d" "month d"] by (simp add: valid_date_def)
  then have ld: "length (zero_padded (day d)) = 2"
    by (intro length_zero_padded) simp
  then have "zero_padded (day d) \<noteq> []"
    by auto
  then have dd: "day_field (zero_padded (day d))"
    using assms(1) ld \<open>day d \<le> 31\<close>
    by (simp add: day_field_def zero_padded_digits number_zero_padded valid_date_def)
  have blank: "dropWhile (\<lambda>c. c = CHR '' '') (zero_padded (day d)) = zero_padded (day d)"
    by (rule dropWhile_blank_digits) (rule zero_padded_digits)
  have same: "\<lparr>year = year d, month = month d, day = day d\<rparr> = d"
    by simp
  show ?thesis
    using assms(1) y m dd
    by (simp add: strptime_def split_on_strftime blank number_decimal number_zero_padded
          Let_def same)
qed

lemma strptime_short_year:
  assumes "year d < 1000"
  shows "strptime (strftime d) = Inl ValueError"
proof -
  have "length (decimal (year d)) < 4"
    using assms length_decimal [of "year d"] by (simp split: if_splits)
  then have "\<not> year_field (decimal (year d))"
    by (simp add: year_field_def)
  then show ?thesis
    by (simp add: strptime_def split_on_strftime)
qed

section \<open>Facts about the processor stage\<close>

text \<open>\<open>str_in\<close> is the contiguous-sublist relation of the library.\<close>

lemma str_in_sublist: "str_in needle hay \<longleftrightarrow> sublist needle hay"
  by (induction hay) (auto simp: sublist_Cons_right)

text \<open>
  \<open>validate_and_clean_deadline\<close>: a string with one of the keywords, in any case, gives
  \<open>None\<close>; so does a string on which the parser raises \<open>ValueError\<close> or \<open>TypeError\<close>; a
  string that the parser reads gives the text of the date; an \<open>OverflowError\<close> of the
  parser leaves the function.
\<close>

lemma keyword_deadline:
  assumes "\<exists>keyword \<in> {''rolling'', ''ongoing'', ''specified'', ''quarterly'', ''n/a''}.
             sublist keyword (lower s)"
  shows "validate_and_clean_deadline e (Some s) = Inr None"
  using assms by (auto simp: validate_and_clean_deadline_def str_in_sublist)

lemma unparseable_deadline:
  assumes "parse_date e s = Inl ValueError \<or> parse_date e s = Inl TypeError"
  shows "validate_and_clean_deadline e (Some s) = Inr None"
  using assms by (auto simp: validate_and_clean_deadline_def)

lemma parsed_deadline:
  assumes "s \<noteq> []"
      and "\<not> list_ex (\<lambda>keyword. str_in keyword (lower s))
               [''rolling'', ''ongoing'', ''specified'', ''quarterly'', ''n/a'']"
      and "parse_date e s = Inr d"
  shows "validate_and_clean_deadline e (Some s) = Inr (Some (strftime d))"
  using assms by (simp add: validate_and_clean_deadline_def)

lemma overflowing_deadline:
  assumes "s \<noteq> []"
      and "\<not> list_ex (\<lambda>keyword. str_in keyword (lower s))
               [''rolling'', ''ongoing'', ''specified'', ''quarterly'', ''n/a'']"
      and "parse_date e s = Inl OverflowError"
  shows "validate_and_clean_deadline e (Some s) = Inl OverflowError"
  using assms by (simp add: validate_and_clean_deadline_def)

text \<open>The body of \<open>analyze_opportunity\<close> as one chain of tests.\<close>

lemma analyze_opportunity_unfold:
  "analyze_opportunity e opp =
     (let geo = get_geographic_scope e (title opp) (full_text opp);
          enrichment = get_enrichment_data e (title opp) (full_text opp);
          summary' = (case summary enrichment of None \<Rightarrow> [] | Some t \<Rightarrow> t);
          funding = (case funding_amount enrichment of None \<Rightarrow> [] | Some t \<Rightarrow> t)
      in if \<not> fst (is_relevant_for_ethiopia geo)
         then Inr (Some False,
                   Some \<lparr>update_link = link opp, update_status = Processed_irrelevant\<rparr>, [])
         else if str_in ''AI call failed'' summary' then Inr (None, None, [])
         else if funding = ''Error'' \<or> str_in ''malformed JSON'' summary'
                   \<or> str_in ''No JSON object'' summary'
         then Inr (Some False,
                   Some \<lparr>update_link = link opp, update_status = Processed_ai_error\<rparr>, [])
         else case validate_and_clean_deadline e (deadline enrichment) of
                Inl error \<Rightarrow> Inl error
              | Inr parsed_deadline_str \<Rightarrow>
                  (case (case parsed_deadline_str of
                           None \<Rightarrow> Inr False
                         | Some text \<Rightarrow>
                             if text = [] then Inr False
                             else case strptime text of
                                    Inl error \<Rightarrow> Inl error
                                  | Inr deadline_date \<Rightarrow>
                                      Inr (date_less deadline_date (today e))) of
                     Inl error \<Rightarrow> Inl error
                   | Inr in_the_past \<Rightarrow>
                       if in_the_past
                       then Inr (Some False,
                                 Some \<lparr>update_link = link opp,
                                       update_status = Processed_expired\<rparr>, [])
                       else Inr (Some True,
                                 Some \<lparr>update_link = link opp,
                                       update_status = Processed_relevant\<rparr>,
                                 add_processed_opportunity e
                                   \<lparr>record_link = link opp,
                                    record_title = title opp,
                                    record_source = source opp,
                                    geographic_scope = join '', '' (eligible geo),
                                    record_funding_amount = funding_amount enrichment,
                                    record_funder = funder enrichment,
                                    record_deadline = parsed_deadline_str,
                                    raw_deadline_text = deadline enrichment,
                                    record_focus_areas =
                                      join '', '' (case focus_areas enrichment of
                                                     None \<Rightarrow> [] | Some fs \<Rightarrow> fs),
                                    record_summary = summary enrichment\<rparr>)))"
  unfolding analyze_opportunity_def Let_def
  by (simp split: prod.splits)

text \<open>
  Every outcome is of one of four shapes: the worker raised, or it returned an accepted
  item with its record, a rejected item, or an item for retry. The record of an accepted
  item carries the classifier's deadline string unchanged.
\<close>

lemma analyze_opportunity_shape:
  "(\<exists>error. analyze_opportunity e opp = Inl error) \<or>
   (\<exists>r. analyze_opportunity e opp =
           Inr (Some True,
                Some \<lparr>update_link = link opp, update_status = Processed_relevant\<rparr>,
                add_processed_opportunity e r) \<and>
        record_link r = link opp \<and>
        raw_deadline_text r =
          deadline (get_enrichment_data e (title opp) (full_text opp))) \<or>
   (\<exists>u. analyze_opportunity e opp = Inr (Some False, Some u, []) \<and>
        update_link u = link opp) \<or>
   analyze_opportunity e opp = Inr (None, None, [])"
  by (auto simp: analyze_opportunity_unfold Let_def split: sum.splits option.splits)

text \<open>
  When every attempt raises, \<open>call_gemini_with_retry\<close> returns \<open>None\<close>; and when the
  geography call returns \<open>None\<close>, the item is marked irrelevant.
\<close>

lemma attempts_from_None:
  "(\<forall>j. i \<le> j \<and> j < i + k \<longrightarrow> (\<forall>text. gen j \<noteq> Reply text)) \<Longrightarrow> attempts_from gen i k = None"
  by (induction k arbitrary: i) (auto split: attempt.splits)

lemma geo_exhausted:
  "call_gemini_with_retry
     (generate_content e (Geo_prompt (title opp) (take 3000 (full_text opp)))) = None
   \<Longrightarrow> analyze_opportunity e opp =
      Inr (Some False,
           Some \<lparr>update_link = link opp, update_status = Processed_irrelevant\<rparr>, [])"
  by (simp add: analyze_opportunity_unfold Let_def get_geographic_scope_def no_locations_def
       is_relevant_for_ethiopia_def)

text \<open>
  An item that passed the geography rule and whose enrichment carries no failure token,
  with a deadline that normalises to the text of the date \<open>d\<close>: when the year of \<open>d\<close>
  has four digits and \<open>d\<close> lies before today, the item is marked expired and nothing is
  sent; when the year of \<open>d\<close> has fewer digits, the worker raises \<open>ValueError\<close>.
\<close>

lemma past_deadline_is_expired:
  fixes e :: env and opp :: "'a raw_opportunity_scheme"
  defines "geo \<equiv> get_geographic_scope e (title opp) (full_text opp)"
      and "enrichment \<equiv> get_enrichment_data e (title opp) (full_text opp)"
  defines "summary' \<equiv> (case summary enrichment of None \<Rightarrow> [] | Some t \<Rightarrow> t)"
      and "funding \<equiv> (case funding_amount enrichment of None \<Rightarrow> [] | Some t \<Rightarrow> t)"
  assumes "fst (is_relevant_for_ethiopia geo)"
      and "\<not> str_in ''AI call failed'' summary'"
      and "\<not> (funding = ''Error'' \<or> str_in ''malformed JSON'' summary'
                \<or> str_in ''No JSON object'' summary')"
      and "validate_and_clean_deadline e (deadline enrichment) = Inr (Some (strftime d))"
      and "valid_date d" and "1000 \<le> year d"
      and "date_less d (today e)"
  shows "analyze_opportunity e opp =
           Inr (Some False,
                Some \<lparr>update_link = link opp, update_status = Processed_expired\<rparr>, [])"
  using assms strptime_strftime [of d] strftime_not_empty [of d]
  by (simp add: analyze_opportunity_unfold Let_def)

lemma short_year_deadline:
  fixes e :: env and opp :: "'a raw_opportunity_scheme"
  defines "geo \<equiv> get_geographic_scope e (title opp) (full_text opp)"
      and "enrichment \<equiv> get_enrichment_data e (title opp) (full_text opp)"
  defines "summary' \<equiv> (case summary enrichment of None \<Rightarrow> [] | Some t \<Rightarrow> t)"
      and "funding \<equiv> (case funding_amount enrichment of None \<Rightarrow> [] | Some t \<Rightarrow> t)"
  assumes "fst (is_relevant_for_ethiopia geo)"
      and "\<not> str_in ''AI call failed'' summary'"
      and "\<not> (funding = ''Error'' \<or> str_in ''malformed JSON'' summary'
                \<or> str_in ''No JSON object'' summary')"
      and "validate_and_clean_deadline e (deadline enrichment) = Inr (Some (strftime d))"
      and "year d < 1000"
  shows "analyze_opportunity e opp = Inl ValueError"
  using assms strptime_short_year [of d] strftime_not_empty [of d]
  by (simp add: analyze_opportunity_unfold Let_def)

text \<open>
  A run of the workers over \<open>xs\<close> in which none is left for retry: what they send are
  upserts, one for each accepted item, and each accepted or rejected item yields one
  status update.
\<close>

lemma sent_and_updates:
  fixes e :: env and xs :: "'a raw_opportunity_scheme list"
  defines "accepted \<equiv> \<lambda>opp. verdict (analyze_opportunity e opp) = Some True"
      and "rejected \<equiv> \<lambda>opp. verdict (analyze_opportunity e opp) = Some False"
  assumes "supabase e"
      and "\<forall>opp \<in> set xs. analyze_opportunity e opp \<noteq> Inr (None, None, [])"
  shows "\<exists>records updates.
           concat (map (\<lambda>outcome. case outcome of
                          Inl error \<Rightarrow> []
                        | Inr (is_relevant, update, sent) \<Rightarrow> sent)
                     (map (analyze_opportunity e) xs)) = map Upsert_processed records \<and>
           concat (map (\<lambda>outcome. case outcome of
                          Inl error \<Rightarrow> []
                        | Inr (is_relevant, update, sent) \<Rightarrow>
                            (case update of None \<Rightarrow> [] | Some u \<Rightarrow> [u]))
                     (map (analyze_opportunity e) xs)) = updates \<and>
           map record_link records = map link (filter accepted xs) \<and>
           map update_link updates = map link (filter (\<lambda>opp. accepted opp \<or> rejected opp) xs) \<and>
           length (filter (\<lambda>opp. accepted opp \<or> rejected opp) xs) =
             length (filter accepted xs) + length (filter rejected xs)"
  using assms(4)
proof (induction xs)
  case Nil
  then show ?case by simp
next
  case (Cons x xs)
  then obtain records updates where
      sent: "concat (map (\<lambda>outcome. case outcome of
                          Inl error \<Rightarrow> []
                        | Inr (is_relevant, update, sent) \<Rightarrow> sent)
                     (map (analyze_opportunity e) xs)) = map Upsert_processed records"
    and upd: "concat (map (\<lambda>outcome. case outcome of
                          Inl error \<Rightarrow> []
                        | Inr (is_relevant, update, sent) \<Rightarrow>
                            (case update of None \<Rightarrow> [] | Some u \<Rightarrow> [u]))
                     (map (analyze_opportunity e) xs)) = updates"
    and links: "map record_link records = map link (filter accepted xs)"
    and ulinks: "map update_link updates =
                   map link (filter (\<lambda>opp. accepted opp \<or> rejected opp) xs)"
    and nm: "length (filter (\<lambda>opp. accepted opp \<or> rejected opp) xs) =
               length (filter accepted xs) + length (filter rejected xs)"
    by auto
  from Cons.prems have "analyze_opportunity e x \<noteq> Inr (None, None, [])"
    by simp
  with analyze_opportunity_shape [of e x]
  consider (raised) error where "analyze_opportunity e x = Inl error"
    | (accepted) r u where "analyze_opportunity e x = Inr (Some True, Some u, [Upsert_processed r])"
        "update_link u = link x" "record_link r = link x"
    | (rejected) u where "analyze_opportunity e x = Inr (Some False, Some u, [])"
        "update_link u = link x"
    using assms(3) by (auto simp: add_processed_opportunity_def)
  then show ?case
  proof cases
    case raised
    then show ?thesis
      using sent upd links ulinks nm
      by (intro exI [of _ records] exI [of _ updates])
         (simp add: accepted_def rejected_def verdict_def)
  next
    case accepted
    then show ?thesis
      using sent upd links ulinks nm
      by (intro exI [of _ "r # records"] exI [of _ "u # updates"])
         (simp add: accepted_def rejected_def verdict_def)
  next
    case rejected
    then show ?thesis
      using sent upd links ulinks nm
      by (intro exI [of _ records] exI [of _ "u # updates"])
         (simp add: accepted_def rejected_def verdict_def)
  qed
qed

lemma filter_length_mset:
  "mset ys = mset xs \<Longrightarrow> length (filter P ys) = length (filter P xs)"
  by (metis mset_filter size_mset)

section \<open>Claims about the processor stage\<close>

text \<open>
  C3. The claim: an item whose classifier call fails after all retries, the geography call
  included, keeps the status \<open>pending_analysis\<close>. The code at such an item: all three
  attempts of the geography call fail, \<open>get_geographic_scope\<close> answers with two empty
  lists, the rule finds no scope, and the run writes the terminal status
  \<open>processed_irrelevant\<close> for the link.
\<close>

theorem geo_failure_marks_item_irrelevant:
  "call_gemini_with_retry (generate_content scripted_env (Geo_prompt ''Down'' ''{E}'')) = None \<and>
   analyze_opportunity scripted_env (item ''Down'' ''{E}'') =
     Inr (Some False,
          Some \<lparr>update_link = Some ''https://example.org/Down'',
                update_status = Processed_irrelevant\<rparr>, []) \<and>
   run_processor_stage scripted_env True id [item ''Down'' ''{E}''] =
     [Rpc_bulk_update_raw_status
        [\<lparr>update_link = Some ''https://example.org/Down'',
          update_status = Processed_irrelevant\<rparr>]]"
  by code_simp



text \<open>
  C5. A run in which no item is left for retry, with \<open>N\<close> accepted and \<open>M\<close> rejected
  items: the requests of the run are \<open>N\<close> upserts into the processed store, one for each
  accepted item, followed by one bulk status update with \<open>N + M\<close> entries, one for each
  accepted or rejected item, and by no bulk update at all when there is no entry. The
  order in which the workers finish is any rearrangement of the pending items.
\<close>

theorem one_bulk_update_per_run:
  fixes e :: env and select_ok :: bool and as_completed and table :: "raw_row list"
  defines "pending \<equiv> get_pending_opportunities e select_ok table"
  defines "accepted \<equiv> \<lambda>opp. verdict (analyze_opportunity e opp) = Some True"
      and "rejected \<equiv> \<lambda>opp. verdict (analyze_opportunity e opp) = Some False"
  defines "N \<equiv> length (filter accepted pending)"
      and "M \<equiv> length (filter rejected pending)"
  assumes order: "mset (as_completed pending) = mset pending"
      and no_retry: "\<forall>opp \<in> set pending. analyze_opportunity e opp \<noteq> Inr (None, None, [])"
  shows "\<exists>records updates.
           length records = N \<and> length updates = N + M \<and>
           map record_link records = map link (filter accepted (as_completed pending)) \<and>
           map update_link updates =
             map link (filter (\<lambda>opp. accepted opp \<or> rejected opp) (as_completed pending)) \<and>
           run_processor_stage e select_ok as_completed table =
             map Upsert_processed records @
             (if updates = [] then [] else [Rpc_bulk_update_raw_status updates])"
proof (cases "pending = []")
  case True
  with order have "as_completed pending = []"
    by simp
  with True show ?thesis
    by (simp add: run_processor_stage_def pending_def [symmetric] N_def M_def)
next
  case False
  then have client: "supabase e"
    by (auto simp: pending_def get_pending_opportunities_def split: if_splits)
  let ?ys = "as_completed pending"
  from order have same: "set ?ys = set pending"
    by (rule mset_eq_setD)
  with no_retry have "\<forall>opp \<in> set ?ys. analyze_opportunity e opp \<noteq> Inr (None, None, [])"
    by simp
  from sent_and_updates [OF client this]
  obtain records updates where
      sent: "concat (map (\<lambda>outcome. case outcome of
                          Inl error \<Rightarrow> []
                        | Inr (is_relevant, update, sent) \<Rightarrow> sent)
                     (map (analyze_opportunity e) ?ys)) = map Upsert_processed records"
    and upd: "concat (map (\<lambda>outcome. case outcome of
                          Inl error \<Rightarrow> []
                        | Inr (is_relevant, update, sent) \<Rightarrow>
                            (case update of None \<Rightarrow> [] | Some u \<Rightarrow> [u]))
                     (map (analyze_opportunity e) ?ys)) = updates"
    and links: "map record_link records = map link (filter accepted ?ys)"
    and ulinks: "map update_link updates =
                   map link (filter (\<lambda>opp. accepted opp \<or> rejected opp) ?ys)"
    and nm: "length (filter (\<lambda>opp. accepted opp \<or> rejected opp) ?ys) =
               length (filter accepted ?ys) + length (filter rejected ?ys)"
    unfolding accepted_def rejected_def by blast
  have "length records = length (filter accepted ?ys)"
    using links by (metis length_map)
  then have n: "length records = N"
    using filter_length_mset [OF order] by (simp add: N_def)
  have "length updates = length (filter (\<lambda>opp. accepted opp \<or> rejected opp) ?ys)"
    using ulinks by (metis length_map)
  then have u: "length updates = N + M"
    using nm filter_length_mset [OF order] by (simp add: N_def M_def)
  have "run_processor_stage e select_ok as_completed table =
          concat (map (\<lambda>outcome. case outcome of
                          Inl error \<Rightarrow> []
                        | Inr (is_relevant, update, sent) \<Rightarrow> sent)
                   (map (analyze_opportunity e) ?ys)) @
          (if concat (map (\<lambda>outcome. case outcome of
                          Inl error \<Rightarrow> []
                        | Inr (is_relevant, update, sent) \<Rightarrow>
                            (case update of None \<Rightarrow> [] | Some u \<Rightarrow> [u]))
                   (map (analyze_opportunity e) ?ys)) \<noteq> []
           then bulk_update_raw_opportunity_statuses e
                  (concat (map (\<lambda>outcome. case outcome of
                          Inl error \<Rightarrow> []
                        | Inr (is_relevant, update, sent) \<Rightarrow>
                            (case update of None \<Rightarrow> [] | Some u \<Rightarrow> [u]))
                   (map (analyze_opportunity e) ?ys)))
           else [])"
    using False
    unfolding run_processor_stage_def Let_def pending_def [symmetric]
    by (simp only: if_False)
  also have "\<dots> = map Upsert_processed records @
          (if updates \<noteq> [] then bulk_update_raw_opportunity_statuses e updates else [])"
    by (simp only: sent upd)
  also have "\<dots> = map Upsert_processed records @
           (if updates = [] then [] else [Rpc_bulk_update_raw_status updates])"
    using client by (simp add: bulk_update_raw_opportunity_statuses_def)
  finally show ?thesis
    using n u links ulinks by blast
qed

theorem one_bulk_update_per_run_witness:
  "mset (rev (get_pending_opportunities scripted_env True pending_table)) =
     mset (get_pending_opportunities scripted_env True pending_table) \<and>
   list_all (\<lambda>opp. analyze_opportunity scripted_env opp \<noteq> Inr (None, None, []))
     (get_pending_opportunities scripted_env True pending_table) \<and>
   (\<exists>records updates.
      length records = 1 \<and> length updates = 3 \<and>
      map record_link records = [Some ''https://example.org/b''] \<and>
      map update_link updates =
        [Some ''https://example.org/c'', Some ''https://example.org/b'',
         Some ''https://example.org/a''] \<and>
      run_processor_stage scripted_env True rev pending_table =
        map Upsert_processed records @ [Rpc_bulk_update_raw_status updates])"
proof -
  let ?pending = "get_pending_opportunities scripted_env True pending_table"
  have pending: "?pending = [item ''a'' ''{N}'', item ''b'' ''{E}'', item ''c'' ''{X}'']"
    by code_simp
  have a: "verdict (analyze_opportunity scripted_env (item ''a'' ''{N}'')) = Some False"
    by code_simp
  have b: "verdict (analyze_opportunity scripted_env (item ''b'' ''{E}'')) = Some True"
    by code_simp
  have c: "verdict (analyze_opportunity scripted_env (item ''c'' ''{X}'')) = Some False"
    by code_simp
  have na: "analyze_opportunity scripted_env (item ''a'' ''{N}'') \<noteq> Inr (None, None, [])"
    using a by (auto simp: verdict_def)
  have nb: "analyze_opportunity scripted_env (item ''b'' ''{E}'') \<noteq> Inr (None, None, [])"
    using b by (auto simp: verdict_def)
  have nc: "analyze_opportunity scripted_env (item ''c'' ''{X}'') \<noteq> Inr (None, None, [])"
    using c by (auto simp: verdict_def)
  have la: "link (item ''a'' ''{N}'') = Some ''https://example.org/a''"
    by (simp add: item_def)
  have lb: "link (item ''b'' ''{E}'') = Some ''https://example.org/b''"
    by (simp add: item_def)
  have lc: "link (item ''c'' ''{X}'') = Some ''https://example.org/c''"
    by (simp add: item_def)
  have order: "mset (rev ?pending) = mset ?pending"
    by simp
  have no_retry: "\<forall>opp \<in> set ?pending.
      analyze_opportunity scripted_env opp \<noteq> Inr (None, None, [])"
    using na nb nc by (simp add: pending)
  have n: "length (filter (\<lambda>opp. verdict (analyze_opportunity scripted_env opp) = Some True)
             ?pending) = 1"
    by (simp add: pending a b c)
  have m: "length (filter (\<lambda>opp. verdict (analyze_opportunity scripted_env opp) = Some False)
             ?pending) = 2"
    by (simp add: pending a b c)
  have acc: "map link (filter (\<lambda>opp. verdict (analyze_opportunity scripted_env opp) = Some True)
             (rev ?pending)) = [Some ''https://example.org/b'']"
    by (simp add: pending a b c la lb lc)
  have all: "map link
      (filter (\<lambda>opp. verdict (analyze_opportunity scripted_env opp) = Some True \<or>
                      verdict (analyze_opportunity scripted_env opp) = Some False)
         (rev ?pending)) =
        [Some ''https://example.org/c'', Some ''https://example.org/b'',
         Some ''https://example.org/a'']"
    by (simp add: pending a b c la lb lc)
  have "\<exists>records updates.
          length records = 1 \<and> length updates = 1 + 2 \<and>
          map record_link records = [Some ''https://example.org/b''] \<and>
          map update_link updates =
            [Some ''https://example.org/c'', Some ''https://example.org/b'',
             Some ''https://example.org/a''] \<and>
          run_processor_stage scripted_env True rev pending_table =
            map Upsert_processed records @
            (if updates = [] then [] else [Rpc_bulk_update_raw_status updates])"
    using one_bulk_update_per_run [of rev scripted_env True pending_table, OF order no_retry]
    unfolding n m acc all .
  then obtain records where "\<exists>updates.
          length records = 1 \<and> length updates = 1 + 2 \<and>
          map record_link records = [Some ''https://example.org/b''] \<and>
          map update_link updates =
            [Some ''https://example.org/c'', Some ''https://example.org/b'',
             Some ''https://example.org/a''] \<and>
          run_processor_stage scripted_env True rev pending_table =
            map Upsert_processed records @
            (if updates = [] then [] else [Rpc_bulk_update_raw_status updates])" ..
  then obtain updates where found:
         "length records = 1 \<and> length updates = 1 + 2 \<and>
          map record_link records = [Some ''https://example.org/b''] \<and>
          map update_link updates =
            [Some ''https://example.org/c'', Some ''https://example.org/b'',
             Some ''https://example.org/a''] \<and>
          run_processor_stage scripted_env True rev pending_table =
            map Upsert_processed records @
            (if updates = [] then [] else [Rpc_bulk_update_raw_status updates])" ..
  then have "updates \<noteq> []"
    by auto
  with found have "length records = 1 \<and> length updates = 3 \<and>
          map record_link records = [Some ''https://example.org/b''] \<and>
          map update_link updates =
            [Some ''https://example.org/c'', Some ''https://example.org/b'',
             Some ''https://example.org/a''] \<and>
          run_processor_stage scripted_env True rev pending_table =
            map Upsert_processed records @ [Rpc_bulk_update_raw_status updates]"
    by simp
  then have "\<exists>records updates. length records = 1 \<and> length updates = 3 \<and>
          map record_link records = [Some ''https://example.org/b''] \<and>
          map update_link updates =
            [Some ''https://example.org/c'', Some ''https://example.org/b'',
             Some ''https://example.org/a''] \<and>
          run_processor_stage scripted_env True rev pending_table =
            map Upsert_processed records @ [Rpc_bulk_update_raw_status updates]"
    by (intro exI)
  moreover have "list_all (\<lambda>opp. analyze_opportunity scripted_env opp \<noteq> Inr (None, None, []))
     ?pending"
    using no_retry by (simp only: list_all_iff)
  ultimately show ?thesis
    using order by (intro conjI)
qed

text \<open>
  C6. The claim: an item whose enrichment succeeds and whose deadline parses to a date
  before today gets the status \<open>processed_expired\<close>. The code at the deadline
  \<open>0001-01-01\<close>, which the parser reads as the first day of the year 1:
  \<open>validate_and_clean_deadline\<close> returns the text \<open>1-01-01\<close>, \<open>strptime\<close> refuses it with
  \<open>ValueError\<close>, the worker raises, and the run sends no status update for the item.
  (For a date whose year has four digits the claim holds: \<open>past_deadline_is_expired\<close>.)
\<close>

theorem short_year_deadline_raises:
  "parse_date scripted_env ''0001-01-01'' = Inr \<lparr>year = 1, month = 1, day = 1\<rparr> \<and>
   date_less \<lparr>year = 1, month = 1, day = 1\<rparr> (today scripted_env) \<and>
   validate_and_clean_deadline scripted_env (Some ''0001-01-01'') = Inr (Some ''1-01-01'') \<and>
   strptime ''1-01-01'' = Inl ValueError \<and>
   analyze_opportunity scripted_env (item ''y'' ''{Y}'') = Inl ValueError \<and>
   run_processor_stage scripted_env True id [item ''y'' ''{Y}''] = []"
  by code_simp

text \<open>
  C7. The claim: a deadline string with one of the non-date keywords, and likewise every
  string that cannot be parsed as a date, normalises to \<open>None\<close>, and the accepted record
  keeps the classifier's string. The code at the deadline \<open>3000000000\<close>, on which the
  parser raises \<open>OverflowError\<close>: the handler of \<open>validate_and_clean_deadline\<close> does not
  catch it, \<open>validate_and_clean_deadline\<close> raises instead of returning \<open>None\<close>, the
  worker raises, and the run sends nothing for the item. (For the keywords, and for the
  strings on which the parser raises \<open>ValueError\<close> or \<open>TypeError\<close>, the claim holds:
  \<open>keyword_deadline\<close>, \<open>unparseable_deadline\<close>, \<open>analyze_opportunity_shape\<close>.)
\<close>

theorem overflowing_deadline_raises:
  "parse_date scripted_env ''3000000000'' = Inl OverflowError \<and>
   validate_and_clean_deadline scripted_env (Some ''3000000000'') = Inl OverflowError \<and>
   analyze_opportunity scripted_env (item ''o'' ''{O}'') = Inl OverflowError \<and>
   run_processor_stage scripted_env True id [item ''o'' ''{O}''] = []"
  by code_simp

section \<open>Facts about the collector stage\<close>

text \<open>The accumulator of \<open>unique_loop\<close> is a prefix of its result.\<close>

lemma unique_loop_append:
  "unique_loop xs acc seen = acc @ unique_loop xs [] seen"
proof (induction xs arbitrary: acc seen)
  case Nil
  then show ?case by simp
next
  case (Cons opp rest)
  show ?case
  proof (cases "link opp")
    case None
    then show ?thesis using Cons.IH [of acc seen] by simp
  next
    case (Some l)
    show ?thesis
    proof (cases "l \<noteq> [] \<and> l \<notin> seen")
      case True
      then show ?thesis
        using Some Cons.IH [of "acc @ [opp]" "insert l seen"] Cons.IH [of "[opp]" "insert l seen"]
        by simp
    next
      case False
      then show ?thesis using Some Cons.IH [of acc seen] by auto
    qed
  qed
qed

lemma unique_loop_Cons:
  "unique_loop (x # rest) [] seen =
     (case link x of
        None \<Rightarrow> unique_loop rest [] seen
      | Some l \<Rightarrow>
          if l \<noteq> [] \<and> l \<notin> seen then x # unique_loop rest [] (insert l seen)
          else unique_loop rest [] seen)"
  using unique_loop_append [of rest "[x]"] by (simp split: option.splits)

text \<open>What survives the loop was a candidate with a link that is not empty and was not seen.\<close>

lemma unique_loop_links:
  "opp \<in> set (unique_loop xs [] seen) \<Longrightarrow>
     opp \<in> set xs \<and> (\<exists>l. link opp = Some l \<and> l \<noteq> [] \<and> l \<notin> seen)"
proof (induction xs arbitrary: seen)
  case Nil
  then show ?case by simp
next
  case (Cons x rest)
  from Cons.prems consider
      (here) l where "link x = Some l" "l \<noteq> []" "l \<notin> seen" "opp = x"
    | (later) l where "link x = Some l" "l \<noteq> []" "l \<notin> seen"
        "opp \<in> set (unique_loop rest [] (insert l seen))"
    | (skipped) "opp \<in> set (unique_loop rest [] seen)"
    by (auto simp: unique_loop_Cons simp del: unique_loop.simps split: option.splits if_splits)
  then show ?case
  proof cases
    case here
    then show ?thesis by simp
  next
    case later
    with Cons.IH [of "insert l seen"] show ?thesis by auto
  next
    case skipped
    with Cons.IH [of seen] show ?thesis by auto
  qed
qed

text \<open>Of the candidates with one link, the first one survives and no other.\<close>

lemma unique_loop_first:
  "l \<noteq> [] \<Longrightarrow>
   filter (\<lambda>opp. link opp = Some l) (unique_loop xs [] seen) =
     (if l \<in> seen then []
      else case find (\<lambda>opp. link opp = Some l) xs of None \<Rightarrow> [] | Some opp \<Rightarrow> [opp])"
proof (induction xs arbitrary: seen)
  case Nil
  then show ?case by simp
next
  case (Cons x rest)
  note IH = Cons.IH [OF Cons.prems]
  show ?case
  proof (cases "link x")
    case None
    then show ?thesis
      using IH [of seen] by (simp add: unique_loop_Cons del: unique_loop.simps)
  next
    case (Some k)
    show ?thesis
    proof (cases "k \<noteq> [] \<and> k \<notin> seen")
      case True
      then show ?thesis
        using Some IH [of "insert k seen"]
        by (auto simp: unique_loop_Cons simp del: unique_loop.simps)
    next
      case False
      then show ?thesis
        using Some IH [of seen] Cons.prems
        by (auto simp: unique_loop_Cons simp del: unique_loop.simps)
    qed
  qed
qed

text \<open>No scraper returns a record whose link is among the known links.\<close>

lemma scrape_new_links_unknown:
  assumes "\<And>url r. details url = Some r \<Longrightarrow> link r = Some url"
      and "opp \<in> set (scrape_new_links details existing_links all_recent_links)"
  shows "link opp \<notin> existing_links"
  using assms
  by (auto simp: scrape_new_links_def SCRAPER_TEST_LIMIT_def Let_def map_filter_def)

lemma gso_details_link: "gso_scrape_opportunity_details w url = Some r \<Longrightarrow> link r = Some url"
  by (auto simp: gso_scrape_opportunity_details_def Let_def split: option.splits if_splits)

lemma ofy_details_link: "ofy_scrape_opportunity_details w url = Some r \<Longrightarrow> link r = Some url"
  by (auto simp: ofy_scrape_opportunity_details_def Let_def split: option.splits if_splits)

lemma scraper_output_unknown:
  assumes "f \<in> set (scraper_functions w)" and "f existing_links = Inr found" and "opp \<in> set found"
  shows "link opp \<notin> existing_links"
proof -
  from assms(1) consider "f = scrape_gso w" | "f = scrape_ofy w" | "f = scrape_od w"
    by (auto simp: scraper_functions_def)
  then show ?thesis
  proof cases
    case 1
    with assms(2,3) show ?thesis
      using scrape_new_links_unknown [of "gso_scrape_opportunity_details w" opp]
      by (auto simp: scrape_gso_def gso_details_link)
  next
    case 2
    with assms(2,3) show ?thesis
      using scrape_new_links_unknown [of "ofy_scrape_opportunity_details w" opp]
      by (auto simp: scrape_ofy_def ofy_details_link split: option.splits if_splits)
  next
    case 3
    with assms(2) show ?thesis
      by (simp add: scrape_od_def)
  qed
qed

section \<open>Claims about the collector stage\<close>

text \<open>
  C8. For the outputs of the scrapers, in whatever order they finish: of the records that
  carry one link, exactly one survives reconciliation, namely the first in that order; no
  surviving record has a link of the known-link set; the surviving records are sent to the
  raw store in one upsert, and nothing is sent when none survives.
\<close>

theorem reconciliation_keeps_first_new_link:
  fixes e :: env and w :: web and failing as_completed and table :: "raw_row list"
  defines "existing_links \<equiv> get_all_scraped_links e failing table"
  defines "futures \<equiv> map (\<lambda>f. f existing_links) (scraper_functions w)"
  defines "candidates \<equiv> all_new_raw_opportunities (as_completed futures)"
  defines "unique_opportunities \<equiv> unique_loop candidates [] {}"
  assumes order: "mset (as_completed futures) = mset futures"
  shows "(\<forall>l. l \<noteq> [] \<and> (\<exists>opp \<in> set candidates. link opp = Some l) \<longrightarrow>
            (\<exists>first. find (\<lambda>opp. link opp = Some l) candidates = Some first \<and>
                     filter (\<lambda>opp. link opp = Some l) unique_opportunities = [first])) \<and>
         (\<forall>opp \<in> set unique_opportunities. link opp \<notin> existing_links) \<and>
         run_collector_stage e w failing as_completed table =
           (if unique_opportunities = [] \<or> \<not> supabase e then []
            else [Upsert_raw unique_opportunities])"
proof (intro conjI allI impI ballI)
  fix l
  assume l: "l \<noteq> [] \<and> (\<exists>opp \<in> set candidates. link opp = Some l)"
  then obtain first where first: "find (\<lambda>opp. link opp = Some l) candidates = Some first"
    by (cases "find (\<lambda>opp. link opp = Some l) candidates") (auto simp: find_None_iff)
  moreover have "filter (\<lambda>opp. link opp = Some l) unique_opportunities = [first]"
    using l first unique_loop_first [of l candidates "{}"]
    by (simp add: unique_opportunities_def)
  ultimately show "\<exists>first. find (\<lambda>opp. link opp = Some l) candidates = Some first \<and>
                     filter (\<lambda>opp. link opp = Some l) unique_opportunities = [first]"
    by blast
next
  fix opp
  assume "opp \<in> set unique_opportunities"
  then have "opp \<in> set candidates"
    using unique_loop_links [of opp candidates "{}"] by (simp add: unique_opportunities_def)
  then obtain found where found: "Inr found \<in> set (as_completed futures)" "opp \<in> set found"
    by (auto simp: candidates_def all_new_raw_opportunities_def split: sum.splits)
  from order have "set (as_completed futures) = set futures"
    by (rule mset_eq_setD)
  with found(1) obtain f where "f \<in> set (scraper_functions w)" "f existing_links = Inr found"
    by (auto simp: futures_def)
  then show "link opp \<notin> existing_links"
    using found(2) by (rule scraper_output_unknown)
next
  show "run_collector_stage e w failing as_completed table =
           (if unique_opportunities = [] \<or> \<not> supabase e then []
            else [Upsert_raw unique_opportunities])"
    by (simp add: run_collector_stage_def Let_def add_raw_opportunities_def
          unique_opportunities_def candidates_def futures_def existing_links_def)
qed

theorem reconciliation_keeps_first_new_link_witness:
  "mset (rev (map (\<lambda>f. f (get_all_scraped_links scripted_env None known_table))
                (scraper_functions scripted_web))) =
     mset (map (\<lambda>f. f (get_all_scraped_links scripted_env None known_table))
             (scraper_functions scripted_web)) \<and>
   length (filter (\<lambda>opp. link opp = Some ''https://a.org/2'')
     (all_new_raw_opportunities
        (rev (map (\<lambda>f. f (get_all_scraped_links scripted_env None known_table))
                (scraper_functions scripted_web))))) = 2 \<and>
   Some ''https://known.org/k'' \<in> get_all_scraped_links scripted_env None known_table \<and>
   run_collector_stage scripted_env scripted_web None rev known_table =
     [Upsert_raw
        [\<lparr>title = ''Cross-posted grant'', link = Some ''https://a.org/2'',
          source = ''Opportunities For Youth'', full_text = ''Text''\<rparr>,
         \<lparr>title = ''Grant one'', link = Some ''https://a.org/1'',
          source = ''Global South Opportunities'', full_text = ''Text one''\<rparr>]] \<and>
   (\<exists>first.
      find (\<lambda>opp. link opp = Some ''https://a.org/2'')
        (all_new_raw_opportunities
           (rev (map (\<lambda>f. f (get_all_scraped_links scripted_env None known_table))
                   (scraper_functions scripted_web)))) = Some first \<and>
      filter (\<lambda>opp. link opp = Some ''https://a.org/2'')
        (unique_loop
           (all_new_raw_opportunities
              (rev (map (\<lambda>f. f (get_all_scraped_links scripted_env None known_table))
                      (scraper_functions scripted_web)))) [] {}) = [first])"
proof -
  let ?existing = "get_all_scraped_links scripted_env None known_table"
  let ?futures = "map (\<lambda>f. f ?existing) (scraper_functions scripted_web)"
  let ?candidates = "all_new_raw_opportunities (rev ?futures)"
  have order: "mset (rev ?futures) = mset ?futures"
    by simp
  have twice: "length (filter (\<lambda>opp. link opp = Some ''https://a.org/2'') ?candidates) = 2"
    by code_simp
  then have occurs: "\<exists>opp \<in> set ?candidates. link opp = Some ''https://a.org/2''"
    by (cases "filter (\<lambda>opp. link opp = Some ''https://a.org/2'') ?candidates")
       (auto simp: filter_eq_Cons_iff)
  have known: "Some ''https://known.org/k'' \<in> ?existing"
    by code_simp
  have run: "run_collector_stage scripted_env scripted_web None rev known_table =
     [Upsert_raw
        [\<lparr>title = ''Cross-posted grant'', link = Some ''https://a.org/2'',
          source = ''Opportunities For Youth'', full_text = ''Text''\<rparr>,
         \<lparr>title = ''Grant one'', link = Some ''https://a.org/1'',
          source = ''Global South Opportunities'', full_text = ''Text one''\<rparr>]]"
    by code_simp
  have nonempty: "''https://a.org/2'' \<noteq> []"
    by simp
  from reconciliation_keeps_first_new_link
         [of rev scripted_env None known_table scripted_web, OF order]
  have "\<exists>first. find (\<lambda>opp. link opp = Some ''https://a.org/2'') ?candidates = Some first \<and>
          filter (\<lambda>opp. link opp = Some ''https://a.org/2'')
            (unique_loop ?candidates [] {}) = [first]"
    using occurs nonempty by blast
  with order twice known run show ?thesis
    by blast
qed

text \<open>
  C10. A candidate whose link is missing or empty never survives the loop; every record
  that \<open>run_collector_stage\<close> sends to \<open>add_raw_opportunities\<close> has a non-empty link.
\<close>

theorem linkless_records_are_dropped:
  "(\<forall>opp \<in> set (unique_loop candidates [] {}). \<exists>l. link opp = Some l \<and> l \<noteq> []) \<and>
   (\<forall>records. Upsert_raw records \<in> set (run_collector_stage e w failing as_completed table)
      \<longrightarrow> (\<forall>opp \<in> set records. \<exists>l. link opp = Some l \<and> l \<noteq> []))"
proof -
  have loop: "\<forall>opp \<in> set (unique_loop xs [] {}). \<exists>l. link opp = Some l \<and> l \<noteq> []" for xs
    using unique_loop_links [of _ xs "{}"] by blast
  show ?thesis
  proof (intro conjI allI impI)
    show "\<forall>opp \<in> set (unique_loop candidates [] {}). \<exists>l. link opp = Some l \<and> l \<noteq> []"
      by (rule loop)
  next
    fix records
    assume "Upsert_raw records \<in> set (run_collector_stage e w failing as_completed table)"
    then obtain xs where "records = unique_loop xs [] {}"
      by (auto simp: run_collector_stage_def Let_def add_raw_opportunities_def
            split: if_splits)
    then show "\<forall>opp \<in> set records. \<exists>l. link opp = Some l \<and> l \<noteq> []"
      using loop by simp
  qed
qed

theorem linkless_records_are_dropped_witness:
  "unique_loop
     [candidate None, candidate (Some []), candidate (Some ''https://a.org/1''),
      candidate (Some ''https://a.org/1'')] [] {} = [candidate (Some ''https://a.org/1'')] \<and>
   (\<exists>l. link (candidate (Some ''https://a.org/1'')) = Some l \<and> l \<noteq> []) \<and>
   (\<exists>records. Upsert_raw records
        \<in> set (run_collector_stage scripted_env scripted_web None rev known_table) \<and>
      records \<noteq> [] \<and> (\<forall>opp \<in> set records. \<exists>l. link opp = Some l \<and> l \<noteq> []))"
proof -
  let ?candidates = "[candidate None, candidate (Some []), candidate (Some ''https://a.org/1''),
      candidate (Some ''https://a.org/1'')]"
  let ?sent = "[\<lparr>title = ''Cross-posted grant'', link = Some ''https://a.org/2'',
          source = ''Opportunities For Youth'', full_text = ''Text''\<rparr>,
         \<lparr>title = ''Grant one'', link = Some ''https://a.org/1'',
          source = ''Global South Opportunities'', full_text = ''Text one''\<rparr>]"
  have loop: "unique_loop ?candidates [] {} = [candidate (Some ''https://a.org/1'')]"
    by code_simp
  have "run_collector_stage scripted_env scripted_web None rev known_table = [Upsert_raw ?sent]"
    by code_simp
  then have sent: "Upsert_raw ?sent
      \<in> set (run_collector_stage scripted_env scripted_web None rev known_table)"
    by simp
  note claim = linkless_records_are_dropped
      [of ?candidates scripted_env scripted_web None rev known_table]
  from claim have "\<forall>opp \<in> set (unique_loop ?candidates [] {}). \<exists>l. link opp = Some l \<and> l \<noteq> []"
    by (rule conjunct1)
  then have first: "\<exists>l. link (candidate (Some ''https://a.org/1'')) = Some l \<and> l \<noteq> []"
    by (simp only: loop list.set ball_simps bex_simps insert_iff empty_iff simp_thms)
  from claim sent have "\<forall>opp \<in> set ?sent. \<exists>l. link opp = Some l \<and> l \<noteq> []"
    by blast
  with sent have "\<exists>records. Upsert_raw records
        \<in> set (run_collector_stage scripted_env scripted_web None rev known_table) \<and>
      records \<noteq> [] \<and> (\<forall>opp \<in> set records. \<exists>l. link opp = Some l \<and> l \<noteq> [])"
    by (intro exI [of _ ?sent]) simp
  with loop first show ?thesis
    by blast
qed

section \<open>Claims about the maintenance stage\<close>

text \<open>
  C9. After one run of the two deletion passes that the store executed, a second run at
  the same clock reading deletes nothing and leaves the table as it is: no remaining row
  has a deadline before the current date, and no remaining row has an empty deadline, a
  raw deadline text among the stale keywords and a processing time before the cutoff.
\<close>

theorem sweeper_is_idempotent:
  assumes client: "supabase e"
      and first: "run_maintenance_stage e True True c table = (table', deleted)"
  shows "run_maintenance_stage e executed1 executed2 c table' = (table', 0) \<and>
         (\<forall>row \<in> set table'. \<forall>d. record_deadline row = Some d \<longrightarrow> \<not> date_less d (utc_today c)) \<and>
         (\<forall>row \<in> set table'.
            \<not> (record_deadline row = None \<and>
               (\<exists>t \<in> set stale_keywords. raw_deadline_text row = Some t) \<and>
               processed_at row < utc_months_ago c STALE_OPPORTUNITY_MONTHS))"
proof -
  let ?cutoff = "utc_months_ago c STALE_OPPORTUNITY_MONTHS"
  have table': "table' = filter (\<lambda>row. \<not> stale_filter ?cutoff row)
                   (filter (\<lambda>row. \<not> expired_filter (utc_today c) row) table)"
    using client first
    by (simp add: run_maintenance_stage_def delete_expired_opportunities_def
          delete_stale_opportunities_def Let_def)
  have no_expired: "\<forall>row \<in> set table'. \<not> expired_filter (utc_today c) row"
    by (simp add: table')
  have no_stale: "\<forall>row \<in> set table'. \<not> stale_filter ?cutoff row"
    by (simp add: table')
  have keep1: "filter (\<lambda>row. \<not> expired_filter (utc_today c) row) table' = table'"
    using no_expired by (simp add: filter_id_conv)
  have keep2: "filter (\<lambda>row. \<not> stale_filter ?cutoff row) table' = table'"
    using no_stale by (simp add: filter_id_conv)
  have none1: "filter (expired_filter (utc_today c)) table' = []"
    using no_expired by (simp add: filter_empty_conv)
  have none2: "filter (stale_filter ?cutoff) table' = []"
    using no_stale by (simp add: filter_empty_conv)
  have again: "run_maintenance_stage e executed1 executed2 c table' = (table', 0)"
    by (simp add: run_maintenance_stage_def delete_expired_opportunities_def
          delete_stale_opportunities_def Let_def keep1 keep2 none1 none2)
  have dated: "\<forall>row \<in> set table'. \<forall>d. record_deadline row = Some d \<longrightarrow>
                 \<not> date_less d (utc_today c)"
    using no_expired by (auto simp: expired_filter_def)
  have unspecified: "\<forall>row \<in> set table'.
            \<not> (record_deadline row = None \<and>
               (\<exists>t \<in> set stale_keywords. raw_deadline_text row = Some t) \<and>
               processed_at row < ?cutoff)"
    using no_stale by (auto simp: stale_filter_def)
  from again dated unspecified show ?thesis
    by blast
qed

theorem sweeper_is_idempotent_witness:
  "supabase scripted_env \<and>
   run_maintenance_stage scripted_env True True sample_clock sample_table =
     ([sample_row (Some \<lparr>year = 2025, month = 6, day = 15\<rparr>) (Some ''2025-06-15'') 100,
       sample_row None (Some ''Not Specified'') 730,
       sample_row None (Some ''Rolling'') 10], 2) \<and>
   run_maintenance_stage scripted_env True True sample_clock
     [sample_row (Some \<lparr>year = 2025, month = 6, day = 15\<rparr>) (Some ''2025-06-15'') 100,
      sample_row None (Some ''Not Specified'') 730,
      sample_row None (Some ''Rolling'') 10] =
     ([sample_row (Some \<lparr>year = 2025, month = 6, day = 15\<rparr>) (Some ''2025-06-15'') 100,
       sample_row None (Some ''Not Specified'') 730,
       sample_row None (Some ''Rolling'') 10], 0)"
proof -
  have client: "supabase scripted_env"
    by code_simp
  have first: "run_maintenance_stage scripted_env True True sample_clock sample_table =
     ([sample_row (Some \<lparr>year = 2025, month = 6, day = 15\<rparr>) (Some ''2025-06-15'') 100,
       sample_row None (Some ''Not Specified'') 730,
       sample_row None (Some ''Rolling'') 10], 2)"
    by code_simp
  show ?thesis
    using client first sweeper_is_idempotent [OF client first, of True True]
    by blast
qed

end
